theory Spec2Isabelle
  imports Main "HOL-Library.Word"
begin

section \<open>JavaScript values used by the two scripts\<close>

text \<open>
  The repository holds two Node scripts in one file: \<open>interact-percolator.js\<close> (a command
  line helper) and \<open>dashboard.js\<close> (an express server). Both derive the same program
  derived addresses (PDAs) through \<open>@solana/web3.js\<close> and read accounts over RPC.

  A JavaScript string is a sequence of UTF-16 code units; a \<open>Buffer\<close> is a sequence of
  bytes. Literals of the source are written \<open>js ''...''\<close>.
\<close>

type_synonym bytes = "8 word list"
type_synonym jsstring = "16 word list"

definition js :: "string \<Rightarrow> jsstring" where
  "js s = map of_char s"

text \<open>
  \<open>Buffer.from(string)\<close> with Node's default encoding \<open>'utf8'\<close>: one to three bytes for a
  code unit of the basic plane, four bytes for a surrogate pair, and the replacement
  character U+FFFD (\<open>EF BF BD\<close>) for a surrogate that has no partner.
\<close>

definition utf8_unit :: "nat \<Rightarrow> bytes" where
  "utf8_unit n =
     (if n < 0x80 then [of_nat n]
      else if n < 0x800 then [of_nat (0xC0 + n div 0x40), of_nat (0x80 + n mod 0x40)]
      else if 0xD800 \<le> n \<and> n \<le> 0xDFFF then [0xEF, 0xBF, 0xBD]
      else [of_nat (0xE0 + n div 0x1000), of_nat (0x80 + (n div 0x40) mod 0x40),
            of_nat (0x80 + n mod 0x40)])"

definition utf8_pair :: "nat \<Rightarrow> nat \<Rightarrow> bytes" where
  "utf8_pair hi lo =
     (let cp = 0x10000 + (hi - 0xD800) * 0x400 + (lo - 0xDC00) in
      [of_nat (0xF0 + cp div 0x40000), of_nat (0x80 + (cp div 0x1000) mod 0x40),
       of_nat (0x80 + (cp div 0x40) mod 0x40), of_nat (0x80 + cp mod 0x40)])"

fun Buffer_from :: "jsstring \<Rightarrow> bytes" where
  "Buffer_from [] = []"
| "Buffer_from [c] = utf8_unit (unat c)"
| "Buffer_from (c # d # ds) =
     (if 0xD800 \<le> unat c \<and> unat c \<le> 0xDBFF \<and> 0xDC00 \<le> unat d \<and> unat d \<le> 0xDFFF
      then utf8_pair (unat c) (unat d) @ Buffer_from ds
      else utf8_unit (unat c) @ Buffer_from (d # ds))"

text \<open>A thrown JavaScript \<open>Error\<close>, with its \<open>message\<close>.\<close>

datatype js_error = JsError string

fun message :: "js_error \<Rightarrow> string" where
  "message (JsError m) = m"

text \<open>Synchronous code that may throw: the first thrown error ends the sequence.\<close>

definition bind_err :: "js_error + 'a \<Rightarrow> ('a \<Rightarrow> js_error + 'b) \<Rightarrow> js_error + 'b" where
  "bind_err m k = (case m of Inl e \<Rightarrow> Inl e | Inr x \<Rightarrow> k x)"

text \<open>
  \<open>u64LE\<close>: \<open>Buffer.alloc(8)\<close> then \<open>writeBigUInt64LE(BigInt(n))\<close>, which throws a
  \<open>RangeError\<close> outside \<open>[0, 2^64)\<close>.
\<close>

definition u64LE :: "int \<Rightarrow> js_error + bytes" where
  "u64LE nBigInt =
     (if 0 \<le> nBigInt \<and> nBigInt < 2 ^ 64
      then Inr (map (\<lambda>i. word_of_int (nBigInt div 256 ^ i)) [0..<8])
      else Inl (JsError ''RangeError''))"

text \<open>\<open>a || b\<close> on values that are a string or \<open>undefined\<close>: the empty string is falsy.\<close>

definition truthy :: "jsstring option \<Rightarrow> bool" where
  "truthy v = (case v of None \<Rightarrow> False | Some s \<Rightarrow> s \<noteq> [])"

definition js_or :: "jsstring option \<Rightarrow> jsstring option \<Rightarrow> jsstring option" where
  "js_or a b = (if truthy a then a else b)"

definition or_default :: "jsstring option \<Rightarrow> jsstring \<Rightarrow> jsstring" where
  "or_default a d = (if truthy a then the a else d)"

section \<open>The library \<open>@solana/web3.js\<close> and the RPC transport\<close>

text \<open>
  The library is not part of the repository. Its three operations that the scripts call
  are taken as a parameter: \<open>new PublicKey(base58)\<close>, which throws on a malformed
  string, \<open>toBase58\<close>, and \<open>PublicKey.findProgramAddressSync(seeds, programId)\<close>, which
  returns the address and the bump or throws. A \<open>PublicKey\<close> is its bytes, so
  \<open>toBuffer\<close> returns the key itself.
\<close>

type_synonym pubkey = bytes

record web3 =
  PublicKey_new :: "jsstring \<Rightarrow> js_error + pubkey"
  toBase58 :: "pubkey \<Rightarrow> jsstring"
  findProgramAddressSync :: "bytes list \<Rightarrow> pubkey \<Rightarrow> js_error + (pubkey \<times> nat)"

definition toBuffer :: "pubkey \<Rightarrow> bytes" where
  "toBuffer pk = pk"

record keypair =
  publicKey :: pubkey
  secretKey :: bytes

record account_info =
  lamports :: nat
  owner :: pubkey
  executable :: bool
  data :: "bytes option"

record account_meta =
  pubkey :: pubkey
  isSigner :: bool
  isWritable :: bool

record instruction =
  keys :: "account_meta list"
  programId :: pubkey
  ix_data :: bytes

record transaction =
  instructions :: "instruction list"
  feePayer :: "pubkey option"
  recentBlockhash :: "jsstring option"
  signatures :: "pubkey list"

record sim_value =
  logs :: "jsstring list option"
  err :: "jsstring option"

text \<open>
  A connection answers each request or fails (the promise rejects). A value of this
  record gives the answers of the connection at one moment; the ledger behind it may
  change while a script runs, so a run that reads the same address at several moments
  takes one such value for each of them (see \<open>main_body\<close>).
\<close>

record connection =
  getAccountInfo :: "pubkey \<Rightarrow> js_error + account_info option"
  getLatestBlockhash :: "js_error + jsstring"
  simulateTransaction :: "transaction \<Rightarrow> keypair list \<Rightarrow> js_error + sim_value"
  getVersion :: "js_error + jsstring"

text \<open>
  The requests a run sends are recorded in order. \<open>SendTransaction\<close> is the endpoint that
  submits a transaction for inclusion; the scripts never call it.
\<close>

datatype rpc_call =
    GetAccountInfo pubkey
  | GetLatestBlockhash
  | SimulateTransaction transaction "keypair list"
  | SendTransaction transaction
  | GetVersion

text \<open>
  A console line is the sequence of the values printed on it; padding, punctuation of
  the template strings and characters outside ASCII are left out.
\<close>

datatype piece =
    Str string
  | JStr jsstring
  | Num nat
  | Flag bool
  | Lines "jsstring list"
  | Nullable "jsstring option"

type_synonym line = "piece list"

record io =
  calls :: "rpc_call list"
  console :: "line list"

text \<open>
  An \<open>async\<close> function: it runs from a state of the outside world, and ends with a value
  or a thrown error, leaving the requests it sent and the lines it printed.
\<close>

type_synonym 'a async = "io \<Rightarrow> (js_error + 'a) \<times> io"

definition done_with :: "'a \<Rightarrow> 'a async" where
  "done_with x = (\<lambda>s. (Inr x, s))"

definition await :: "'a async \<Rightarrow> ('a \<Rightarrow> 'b async) \<Rightarrow> 'b async" where
  "await m k = (\<lambda>s. case m s of (Inl e, s') \<Rightarrow> (Inl e, s') | (Inr x, s') \<Rightarrow> k x s')"

definition sync :: "js_error + 'a \<Rightarrow> 'a async" where
  "sync r = (\<lambda>s. (r, s))"

definition try_catch :: "'a async \<Rightarrow> (js_error \<Rightarrow> 'a async) \<Rightarrow> 'a async" where
  "try_catch m h = (\<lambda>s. case m s of (Inl e, s') \<Rightarrow> h e s' | (Inr x, s') \<Rightarrow> (Inr x, s'))"

definition console_log :: "line \<Rightarrow> unit async" where
  "console_log l = (\<lambda>s. (Inr (), s\<lparr>console := console s @ [l]\<rparr>))"

definition rpc :: "rpc_call \<Rightarrow> js_error + 'a \<Rightarrow> 'a async" where
  "rpc c r = (\<lambda>s. (r, s\<lparr>calls := calls s @ [c]\<rparr>))"

text \<open>
  \<open>Promise.all\<close> over async functions whose only request is their first statement: every
  request is sent, then the results are joined; the first rejection (here, in the order
  of the array) is the error.
\<close>

fun Promise_all :: "'a async list \<Rightarrow> 'a list async" where
  "Promise_all [] = done_with []"
| "Promise_all (p # ps) =
     (\<lambda>s. case p s of (r, s') \<Rightarrow>
        (case Promise_all ps s' of (rs, s'') \<Rightarrow>
           (case r of Inl e \<Rightarrow> (Inl e, s'')
            | Inr x \<Rightarrow> (case rs of Inl e \<Rightarrow> (Inl e, s'') | Inr xs \<Rightarrow> (Inr (x # xs), s'')))))"

fun for_each :: "'a list \<Rightarrow> ('a \<Rightarrow> unit async) \<Rightarrow> unit async" where
  "for_each [] body = done_with ()"
| "for_each (x # xs) body = await (body x) (\<lambda>_. for_each xs body)"

section \<open>Shared helpers of the scripts\<close>

subsection \<open>\<open>interact-percolator.js\<close>\<close>

definition getPresence :: "connection \<Rightarrow> pubkey \<Rightarrow> string async" where
  "getPresence connection programId' =
     await (rpc (GetAccountInfo programId') (getAccountInfo connection programId')) (\<lambda>info.
       case info of
         None \<Rightarrow> done_with ''not found''
       | Some i \<Rightarrow> done_with (if executable i then ''executable program''
                              else ''non-executable account''))"

definition simulateNoop :: "connection \<Rightarrow> keypair \<Rightarrow> pubkey \<Rightarrow> sim_value async" where
  "simulateNoop connection payer programId' =
     (let ix = \<lparr>keys = [\<lparr>pubkey = publicKey payer, isSigner = True, isWritable = False\<rparr>],
                programId = programId',
                ix_data = []\<rparr>;
          tx = \<lparr>instructions = [ix], feePayer = None, recentBlockhash = None,
                signatures = []\<rparr>;
          tx = tx\<lparr>feePayer := Some (publicKey payer)\<rparr>
      in await (rpc GetLatestBlockhash (getLatestBlockhash connection)) (\<lambda>blockhash.
           let tx = tx\<lparr>recentBlockhash := Some blockhash\<rparr>;
               tx = tx\<lparr>signatures := [publicKey payer]\<rparr>
           in await (rpc (SimulateTransaction tx [payer])
                        (simulateTransaction connection tx [payer])) (\<lambda>res.
                done_with res)))"

text \<open>
  The options the command line sets, and the environment variables the scripts read.
  \<open>opts.simulate\<close> is \<open>true\<close> or unset.
\<close>

record cli_opts =
  opt_simulate :: bool
  opt_rpc :: "jsstring option"
  opt_router :: "jsstring option"
  opt_slab :: "jsstring option"
  opt_market :: "jsstring option"
  opt_user :: "jsstring option"
  opt_mint :: "jsstring option"
  opt_payer :: "jsstring option"

record process_env =
  env_RPC_URL :: "jsstring option"
  env_MARKET :: "jsstring option"
  env_SIMULATE :: "jsstring option"
  env_ROUTER_ID :: "jsstring option"
  env_SLAB_ID :: "jsstring option"
  env_USER :: "jsstring option"
  env_MINT :: "jsstring option"
  env_PAYER :: "jsstring option"

text \<open>The module level constants of \<open>interact-percolator.js\<close>, in the order they are set.\<close>

record config =
  RPC_URL :: jsstring
  MARKET :: jsstring
  SIMULATE :: bool
  ROUTER_ID :: pubkey
  SLAB_ID :: pubkey
  SYSTEM_ID :: pubkey
  MEMO_ID :: pubkey

definition load_config :: "web3 \<Rightarrow> cli_opts \<Rightarrow> process_env \<Rightarrow> js_error + config" where
  "load_config lib opts env =
     (let rpc_url = or_default (js_or (opt_rpc opts) (env_RPC_URL env)) (js ''http://127.0.0.1:8899'');
          market = or_default (js_or (opt_market opts) (env_MARKET env)) (js ''BTC-PERP'');
          simulate = (opt_simulate opts \<or> env_SIMULATE env = Some (js ''1''))
      in bind_err (PublicKey_new lib (or_default (js_or (opt_router opts) (env_ROUTER_ID env))
                     (js ''RoutR1VdCpHqj89WEMJhb6TkGT9cPfr1rVjhM3e2YQr''))) (\<lambda>router_id.
         bind_err (PublicKey_new lib (or_default (js_or (opt_slab opts) (env_SLAB_ID env))
                     (js ''SLabZ6PsDLh2X6HzEoqxFDMqCVcJXDKCNEYuPzUvGPk''))) (\<lambda>slab_id.
         bind_err (PublicKey_new lib (js ''11111111111111111111111111111111'')) (\<lambda>system_id.
         bind_err (PublicKey_new lib (js ''MemoSq4gqABAXKb96qnH8TysNcWxMyWCqXgDLGmfcHr'')) (\<lambda>memo_id.
         Inr \<lparr>RPC_URL = rpc_url, MARKET = market, SIMULATE = simulate,
              ROUTER_ID = router_id, SLAB_ID = slab_id,
              SYSTEM_ID = system_id, MEMO_ID = memo_id\<rparr>)))))"

text \<open>The roots \<open>USER\<close> and \<open>MINT\<close>, set at the start of the main function.\<close>

definition main_USER :: "web3 \<Rightarrow> cli_opts \<Rightarrow> process_env \<Rightarrow> keypair \<Rightarrow> js_error + pubkey" where
  "main_USER lib opts env payer =
     (if truthy (opt_user opts) then PublicKey_new lib (the (opt_user opts))
      else if truthy (env_USER env) then PublicKey_new lib (the (env_USER env))
      else Inr (publicKey payer))"

definition main_MINT :: "web3 \<Rightarrow> cli_opts \<Rightarrow> process_env \<Rightarrow> pubkey \<Rightarrow> js_error + pubkey" where
  "main_MINT lib opts env user =
     (if truthy (opt_mint opts) then PublicKey_new lib (the (opt_mint opts))
      else if truthy (env_MINT env) then PublicKey_new lib (the (env_MINT env))
      else Inr user)"

text \<open>
  The seven derived addresses: \<open>PublicKey\<close> values in \<open>interact-percolator.js\<close>, base58
  strings in the object \<open>deriveAllPDAs\<close> returns.
\<close>

record 'a pdas =
  vaultPda :: 'a
  escrowPda :: 'a
  capPda :: 'a
  portfolioPda :: 'a
  registryPda :: 'a
  slabStatePda :: 'a
  authorityPda :: 'a

text \<open>Step 2 of the main function: derive the PDAs and print them.\<close>

definition main_derive :: "web3 \<Rightarrow> config \<Rightarrow> pubkey \<Rightarrow> pubkey \<Rightarrow> pubkey pdas async" where
  "main_derive lib cfg user mint =
     await (console_log [Str ''Deriving Router PDAs...'']) (\<lambda>_.
     await (sync (findProgramAddressSync lib
              [Buffer_from (js ''vault''), toBuffer mint] (ROUTER_ID cfg))) (\<lambda>(vault, _).
     let marketSeed = Buffer_from (MARKET cfg) in
     await (sync (findProgramAddressSync lib
              [Buffer_from (js ''slab''), marketSeed] (SLAB_ID cfg))) (\<lambda>(slabState, _).
     await (sync (findProgramAddressSync lib
              [Buffer_from (js ''escrow''), toBuffer user, toBuffer slabState, toBuffer mint]
              (ROUTER_ID cfg))) (\<lambda>(escrow, _).
     await (sync (u64LE 1)) (\<lambda>nonceU64.
     await (sync (findProgramAddressSync lib
              [Buffer_from (js ''cap''), toBuffer user, toBuffer slabState, toBuffer mint, nonceU64]
              (ROUTER_ID cfg))) (\<lambda>(cap, _).
     await (sync (findProgramAddressSync lib
              [Buffer_from (js ''portfolio''), toBuffer user] (ROUTER_ID cfg))) (\<lambda>(portfolio, _).
     await (sync (findProgramAddressSync lib
              [Buffer_from (js ''registry'')] (ROUTER_ID cfg))) (\<lambda>(registry, _).
     await (console_log [Str ''Vault     PDA:'', JStr (toBase58 lib vault)]) (\<lambda>_.
     await (console_log [Str ''Escrow    PDA:'', JStr (toBase58 lib escrow)]) (\<lambda>_.
     await (console_log [Str ''Cap       PDA:'', JStr (toBase58 lib cap), Str ''(nonce=1)'']) (\<lambda>_.
     await (console_log [Str ''Portfolio PDA:'', JStr (toBase58 lib portfolio)]) (\<lambda>_.
     await (console_log [Str ''Registry  PDA:'', JStr (toBase58 lib registry)]) (\<lambda>_.
     await (console_log [Str []]) (\<lambda>_.
     await (console_log [Str ''Deriving Slab PDAs...'']) (\<lambda>_.
     await (sync (findProgramAddressSync lib
              [Buffer_from (js ''authority''), toBuffer slabState] (SLAB_ID cfg))) (\<lambda>(authority, _).
     await (console_log [Str ''Slab State PDA:'', JStr (toBase58 lib slabState)]) (\<lambda>_.
     await (console_log [Str ''Authority  PDA:'', JStr (toBase58 lib authority)]) (\<lambda>_.
     await (console_log [Str []]) (\<lambda>_.
     done_with \<lparr>vaultPda = vault, escrowPda = escrow, capPda = cap,
                 portfolioPda = portfolio, registryPda = registry,
                 slabStatePda = slabState, authorityPda = authority\<rparr>)))))))))))))))))))"

text \<open>
  The object \<open>fetchMeta\<close> returns: \<open>{ exists: false }\<close> is \<open>None\<close>, and an object with
  \<open>exists: true\<close> carries the four fields.
\<close>

record meta_fields =
  m_lamports :: nat
  m_executable :: bool
  m_owner :: jsstring
  m_dataLen :: nat

type_synonym meta = "meta_fields option"

definition exists :: "'a option \<Rightarrow> bool" where
  "exists m = (m \<noteq> None)"

definition fetchMeta :: "web3 \<Rightarrow> connection \<Rightarrow> pubkey \<Rightarrow> meta async" where
  "fetchMeta lib connection pk =
     await (rpc (GetAccountInfo pk) (getAccountInfo connection pk)) (\<lambda>ai.
       case ai of
         None \<Rightarrow> done_with None
       | Some a \<Rightarrow> done_with (Some
           \<lparr>m_lamports = lamports a,
            m_executable = executable a,
            m_owner = toBase58 lib (owner a),
            m_dataLen = (case data a of None \<Rightarrow> 0 | Some d \<Rightarrow> length d)\<rparr>))"

text \<open>Step 3 of the main function: the loop over the targets.\<close>

definition main_targets :: "config \<Rightarrow> pubkey pdas \<Rightarrow> (string \<times> pubkey) list" where
  "main_targets cfg p =
     [(''System'', SYSTEM_ID cfg),
      (''Memo'', MEMO_ID cfg),
      (''Router'', ROUTER_ID cfg),
      (''Slab'', SLAB_ID cfg),
      (''Vault PDA'', vaultPda p),
      (''Escrow PDA'', escrowPda p),
      (''Cap PDA'', capPda p),
      (''Portfolio PDA'', portfolioPda p),
      (''Registry PDA'', registryPda p),
      (''Slab State PDA'', slabStatePda p),
      (''Authority PDA'', authorityPda p)]"

definition main_fetch :: "web3 \<Rightarrow> connection \<Rightarrow> (string \<times> pubkey) list \<Rightarrow> unit async" where
  "main_fetch lib connection targets =
     for_each targets (\<lambda>(label, pk).
       await (fetchMeta lib connection pk) (\<lambda>meta.
         if \<not> exists meta
         then console_log [Str label, JStr (toBase58 lib pk), Str ''not found'']
         else console_log [Str label, JStr (toBase58 lib pk),
                Str ''owner='', JStr (m_owner (the meta)),
                Str ''exec='', Flag (m_executable (the meta)),
                Str ''data='', Num (m_dataLen (the meta)),
                Str ''lamports='', Num (m_lamports (the meta))]))"

text \<open>Step 4 of the main function: the optional simulation of a no-op instruction.\<close>

definition main_simulate ::
  "connection \<Rightarrow> keypair \<Rightarrow> config \<Rightarrow> string \<Rightarrow> string \<Rightarrow> unit async" where
  "main_simulate connection payer cfg routerPresence slabPresence =
     (if SIMULATE cfg then
        await
          (if routerPresence = ''executable program'' then
             await (console_log [Str ''Simulating no-op invoke to Router'']) (\<lambda>_.
             await (try_catch
                      (await (simulateNoop connection payer (ROUTER_ID cfg)) (\<lambda>res.
                       await (console_log [Str ''Router logs:'',
                                Lines (case logs res of None \<Rightarrow> [] | Some l \<Rightarrow> l)]) (\<lambda>_.
                       console_log [Str ''Router err :'', Nullable (err res)])))
                      (\<lambda>e. console_log [Str ''Router simulate failed:'', Str (message e)])) (\<lambda>_.
             console_log [Str []]))
           else
             console_log [Str ''Skipping Router simulate (account not found or not executable).''])
          (\<lambda>_.
           if slabPresence = ''executable program'' then
             await (console_log [Str ''Simulating no-op invoke to Slab'']) (\<lambda>_.
             await (try_catch
                      (await (simulateNoop connection payer (SLAB_ID cfg)) (\<lambda>res.
                       await (console_log [Str ''Slab logs  :'',
                                Lines (case logs res of None \<Rightarrow> [] | Some l \<Rightarrow> l)]) (\<lambda>_.
                       console_log [Str ''Slab err   :'', Nullable (err res)])))
                      (\<lambda>e. console_log [Str ''Slab simulate failed:'', Str (message e)])) (\<lambda>_.
             console_log [Str []]))
           else
             console_log [Str ''Skipping Slab simulate (account not found or not executable).''])
      else done_with ())"

text \<open>
  The main function of \<open>interact-percolator.js\<close>. The payer is the key pair
  \<open>tryLoadPayer\<close> returned (read from a file, or generated). An error thrown anywhere
  outside a \<open>try\<close> reaches the final \<open>catch\<close>: it is printed after \<open>Fatal:\<close> and the
  process exits with status 1.

  The function reads the router and the slab twice, in step 1 (\<open>getPresence\<close>) and again
  in step 3 (\<open>fetchMeta\<close>), and the ledger may change in between: \<open>ledger n\<close> gives the
  answers of the connection during step \<open>n\<close>, as the comments of the source number the
  steps (1 the presence check, 3 the loop over the targets, 4 the simulation), and
  \<open>ledger 0\<close> those to the version request before them. Step 2 sends no request.
\<close>

definition main_body ::
  "web3 \<Rightarrow> (nat \<Rightarrow> connection) \<Rightarrow> config \<Rightarrow> cli_opts \<Rightarrow> process_env \<Rightarrow> keypair \<Rightarrow>
     unit async" where
  "main_body lib ledger cfg opts env payer =
     await (sync (main_USER lib opts env payer)) (\<lambda>user.
     await (sync (main_MINT lib opts env user)) (\<lambda>mint.
     await (try_catch (rpc GetVersion (getVersion (ledger 0))) (\<lambda>_. done_with (js ''{}''))) (\<lambda>version.
     await (console_log [Str ''RPC_URL      :'', JStr (RPC_URL cfg)]) (\<lambda>_.
     await (console_log [Str ''RPC version  :'', JStr version]) (\<lambda>_.
     await (console_log [Str ''PAYER pubkey :'', JStr (toBase58 lib (publicKey payer))]) (\<lambda>_.
     await (console_log [Str ''USER  pubkey :'', JStr (toBase58 lib user)]) (\<lambda>_.
     await (console_log [Str ''MINT  pubkey :'', JStr (toBase58 lib mint)]) (\<lambda>_.
     await (console_log [Str ''MARKET       :'', JStr (MARKET cfg)]) (\<lambda>_.
     await (console_log [Str ''SIMULATE     :'', Str (if SIMULATE cfg then ''yes'' else ''no'')]) (\<lambda>_.
     await (console_log [Str []]) (\<lambda>_.
     await (console_log [Str ''Checking program presence...'']) (\<lambda>_.
     await (Promise_all
              [getPresence (ledger 1) (SYSTEM_ID cfg),
               getPresence (ledger 1) (MEMO_ID cfg),
               getPresence (ledger 1) (ROUTER_ID cfg),
               getPresence (ledger 1) (SLAB_ID cfg)]) (\<lambda>presences.
     let systemPresence = presences ! 0;
         memoPresence = presences ! 1;
         routerPresence = presences ! 2;
         slabPresence = presences ! 3 in
     await (console_log [Str ''System:'', JStr (toBase58 lib (SYSTEM_ID cfg)), Str systemPresence]) (\<lambda>_.
     await (console_log [Str ''Memo  :'', JStr (toBase58 lib (MEMO_ID cfg)), Str memoPresence]) (\<lambda>_.
     await (console_log [Str ''Router:'', JStr (toBase58 lib (ROUTER_ID cfg)), Str routerPresence]) (\<lambda>_.
     await (console_log [Str ''Slab  :'', JStr (toBase58 lib (SLAB_ID cfg)), Str slabPresence]) (\<lambda>_.
     await (console_log [Str []]) (\<lambda>_.
     await (main_derive lib cfg user mint) (\<lambda>p.
     await (console_log [Str ''Fetching account metas (exists / size / owner)...'']) (\<lambda>_.
     await (main_fetch lib (ledger 3) (main_targets cfg p)) (\<lambda>_.
     await (console_log [Str []]) (\<lambda>_.
     await (main_simulate (ledger 4) payer cfg routerPresence slabPresence) (\<lambda>_.
     console_log [Str ''Done.''])))))))))))))))))))))))"

definition main ::
  "web3 \<Rightarrow> (nat \<Rightarrow> connection) \<Rightarrow> config \<Rightarrow> cli_opts \<Rightarrow> process_env \<Rightarrow> keypair \<Rightarrow> io \<Rightarrow>
     nat \<times> io" where
  "main lib ledger cfg opts env payer s =
     (case main_body lib ledger cfg opts env payer s of
        (Inr _, s') \<Rightarrow> (0, s')
      | (Inl e, s') \<Rightarrow> (1, s'\<lparr>console := console s' @ [[Str ''Fatal:'', Str (message e)]]\<rparr>))"

subsection \<open>\<open>dashboard.js\<close>\<close>

definition DEFAULT_MARKET :: jsstring where
  "DEFAULT_MARKET = js ''BTC-PERP''"

definition DEFAULT_ROUTER :: jsstring where
  "DEFAULT_ROUTER = js ''RoutR1VdCpHqj89WEMJhb6TkGT9cPfr1rVjhM3e2YQr''"

definition DEFAULT_SLAB :: jsstring where
  "DEFAULT_SLAB = js ''SLabZ6PsDLh2X6HzEoqxFDMqCVcJXDKCNEYuPzUvGPk''"

definition DEFAULT_RPC :: "process_env \<Rightarrow> jsstring" where
  "DEFAULT_RPC env = or_default (env_RPC_URL env) (js ''http://127.0.0.1:8899'')"

definition dashboard_SYSTEM_ID :: jsstring where
  "dashboard_SYSTEM_ID = js ''11111111111111111111111111111111''"

definition dashboard_MEMO_ID :: jsstring where
  "dashboard_MEMO_ID = js ''MemoSq4gqABAXKb96qnH8TysNcWxMyWCqXgDLGmfcHr''"

text \<open>
  The object \<open>getPresence\<close> of the dashboard returns: \<open>{ status: 'not found' }\<close> has the
  status only.
\<close>

record presence_info =
  status :: string
  p_lamports :: "nat option"
  p_owner :: "jsstring option"
  p_dataLen :: "nat option"

definition dashboard_getPresence :: "web3 \<Rightarrow> connection \<Rightarrow> jsstring \<Rightarrow> presence_info async" where
  "dashboard_getPresence lib connection pk =
     await (sync (PublicKey_new lib pk)) (\<lambda>key.
     await (rpc (GetAccountInfo key) (getAccountInfo connection key)) (\<lambda>info.
       case info of
         None \<Rightarrow> done_with \<lparr>status = ''not found'', p_lamports = None, p_owner = None,
                             p_dataLen = None\<rparr>
       | Some i \<Rightarrow> done_with
           \<lparr>status = (if executable i then ''executable program'' else ''non-executable account''),
            p_lamports = Some (lamports i),
            p_owner = Some (toBase58 lib (owner i)),
            p_dataLen = Some (case data i of None \<Rightarrow> 0 | Some d \<Rightarrow> length d)\<rparr>))"

record pda_args =
  routerPk :: jsstring
  slabPk :: jsstring
  userPk :: jsstring
  mintPk :: jsstring
  market :: jsstring

definition deriveAllPDAs :: "web3 \<Rightarrow> pda_args \<Rightarrow> js_error + jsstring pdas" where
  "deriveAllPDAs lib a =
     bind_err (PublicKey_new lib (routerPk a)) (\<lambda>router_id.
     bind_err (PublicKey_new lib (slabPk a)) (\<lambda>slab_id.
     bind_err (PublicKey_new lib (userPk a)) (\<lambda>user.
     bind_err (PublicKey_new lib (mintPk a)) (\<lambda>mint.
     bind_err (findProgramAddressSync lib
                 [Buffer_from (js ''vault''), toBuffer mint] router_id) (\<lambda>(vault, _).
     let marketSeed = Buffer_from (market a) in
     bind_err (findProgramAddressSync lib
                 [Buffer_from (js ''slab''), marketSeed] slab_id) (\<lambda>(slabState, _).
     bind_err (findProgramAddressSync lib
                 [Buffer_from (js ''escrow''), toBuffer user, toBuffer slabState, toBuffer mint]
                 router_id) (\<lambda>(escrow, _).
     bind_err (u64LE 1) (\<lambda>nonceU64.
     bind_err (findProgramAddressSync lib
                 [Buffer_from (js ''cap''), toBuffer user, toBuffer slabState, toBuffer mint, nonceU64]
                 router_id) (\<lambda>(cap, _).
     bind_err (findProgramAddressSync lib
                 [Buffer_from (js ''portfolio''), toBuffer user] router_id) (\<lambda>(portfolio, _).
     bind_err (findProgramAddressSync lib
                 [Buffer_from (js ''registry'')] router_id) (\<lambda>(registry, _).
     bind_err (findProgramAddressSync lib
                 [Buffer_from (js ''authority''), toBuffer slabState] slab_id) (\<lambda>(authority, _).
     Inr \<lparr>vaultPda = toBase58 lib vault,
          escrowPda = toBase58 lib escrow,
          capPda = toBase58 lib cap,
          portfolioPda = toBase58 lib portfolio,
          registryPda = toBase58 lib registry,
          slabStatePda = toBase58 lib slabState,
          authorityPda = toBase58 lib authority\<rparr>))))))))))))"

text \<open>The dashboard's \<open>fetchMeta\<close> adds the address it was given to the object.\<close>

record dashboard_meta = meta_fields +
  base58 :: jsstring

definition dashboard_fetchMeta ::
  "web3 \<Rightarrow> connection \<Rightarrow> jsstring \<Rightarrow> dashboard_meta option async" where
  "dashboard_fetchMeta lib connection b58 =
     await (sync (PublicKey_new lib b58)) (\<lambda>key.
     await (rpc (GetAccountInfo key) (getAccountInfo connection key)) (\<lambda>ai.
       case ai of
         None \<Rightarrow> done_with None
       | Some a \<Rightarrow> done_with (Some
           \<lparr>m_lamports = lamports a,
            m_executable = executable a,
            m_owner = toBase58 lib (owner a),
            m_dataLen = (case data a of None \<Rightarrow> 0 | Some d \<Rightarrow> length d),
            base58 = b58\<rparr>)))"

text \<open>The handler of \<open>GET /api/status\<close>.\<close>

record query =
  q_rpc :: "jsstring option"
  q_router :: "jsstring option"
  q_slab :: "jsstring option"
  q_market :: "jsstring option"

record presence_row =
  pr_label :: string
  pr_pubkey :: jsstring
  pr_info :: presence_info

record meta_row =
  row_label :: string
  row_pubkey :: jsstring
  row_owner :: "jsstring option"
  row_exec :: "bool option"
  row_data :: "nat option"
  row_lamports :: "nat option"

record status_body =
  res_rpc_url :: jsstring
  res_version :: jsstring
  res_payer :: jsstring
  res_user :: jsstring
  res_mint :: jsstring
  res_presence :: "presence_row list"
  res_pdas :: "(string \<times> jsstring) list"
  res_metas :: "meta_row list"

datatype http_response = is_Json200: Json200 (json_body: status_body) | Json500 (json_error: string)

text \<open>The loop that fills \<open>metas\<close>: one read per label, pushed in order.\<close>

fun metas_loop ::
  "web3 \<Rightarrow> connection \<Rightarrow> (string \<times> jsstring) list \<Rightarrow> meta_row list \<Rightarrow> meta_row list async" where
  "metas_loop lib connection [] metas = done_with metas"
| "metas_loop lib connection ((label, pk) # labels) metas =
     await (sync (PublicKey_new lib pk)) (\<lambda>key.
     await (rpc (GetAccountInfo key) (getAccountInfo connection key)) (\<lambda>ai.
     metas_loop lib connection labels (metas @
       [\<lparr>row_label = label,
         row_pubkey = pk,
         row_owner = (case ai of Some a \<Rightarrow> Some (toBase58 lib (owner a)) | None \<Rightarrow> None),
         row_exec = (case ai of Some a \<Rightarrow> Some (executable a) | None \<Rightarrow> None),
         row_data = (case ai of Some a \<Rightarrow> Some (case data a of None \<Rightarrow> 0 | Some d \<Rightarrow> length d)
                     | None \<Rightarrow> None),
         row_lamports = (case ai of Some a \<Rightarrow> Some (lamports a) | None \<Rightarrow> None)\<rparr>])))"

definition presence_entry ::
  "web3 \<Rightarrow> connection \<Rightarrow> string \<Rightarrow> jsstring \<Rightarrow> presence_row async" where
  "presence_entry lib connection label pk =
     await (dashboard_getPresence lib connection pk) (\<lambda>info.
     done_with \<lparr>pr_label = label, pr_pubkey = pk, pr_info = info\<rparr>)"

text \<open>
  \<open>net\<close> is \<open>new Connection(rpc, 'confirmed')\<close>: the connection behind an endpoint, or the
  error the constructor throws. \<open>payer\<close> is what \<open>tryLoadPayer\<close> returned for this request.
\<close>

definition api_status_try ::
  "web3 \<Rightarrow> (jsstring \<Rightarrow> js_error + connection) \<Rightarrow> process_env \<Rightarrow> keypair \<Rightarrow> query
    \<Rightarrow> status_body async" where
  "api_status_try lib net env payer q =
     (let rpc_url = or_default (q_rpc q) (DEFAULT_RPC env);
          routerPk' = or_default (q_router q) DEFAULT_ROUTER;
          slabPk' = or_default (q_slab q) DEFAULT_SLAB;
          market' = or_default (q_market q) DEFAULT_MARKET
      in
     await (sync (net rpc_url)) (\<lambda>connection.
     await (try_catch (rpc GetVersion (getVersion connection)) (\<lambda>_. done_with (js ''{}''))) (\<lambda>version.
     let userPk' = toBase58 lib (publicKey payer);
         mintPk' = userPk' in
     await (Promise_all
              [presence_entry lib connection ''System'' dashboard_SYSTEM_ID,
               presence_entry lib connection ''Memo'' dashboard_MEMO_ID,
               presence_entry lib connection ''Router'' routerPk',
               presence_entry lib connection ''Slab'' slabPk']) (\<lambda>pres.
     await (sync (deriveAllPDAs lib
              \<lparr>routerPk = routerPk', slabPk = slabPk', userPk = userPk', mintPk = mintPk',
               market = market'\<rparr>)) (\<lambda>p.
     let pdas =
           [(''Vault PDA'', vaultPda p),
            (''Escrow PDA'', escrowPda p),
            (''Cap PDA (nonce=1)'', capPda p),
            (''Portfolio PDA'', portfolioPda p),
            (''Registry PDA'', registryPda p),
            (''Slab State PDA'', slabStatePda p),
            (''Authority PDA'', authorityPda p)];
         labels =
           [(''System'', dashboard_SYSTEM_ID),
            (''Memo'', dashboard_MEMO_ID),
            (''Router'', routerPk'),
            (''Slab'', slabPk')] @ pdas in
     await (metas_loop lib connection labels []) (\<lambda>metas.
     done_with
       \<lparr>res_rpc_url = rpc_url, res_version = version,
        res_payer = userPk', res_user = userPk', res_mint = mintPk',
        res_presence = pres, res_pdas = pdas, res_metas = metas\<rparr>))))))"

definition api_status ::
  "web3 \<Rightarrow> (jsstring \<Rightarrow> js_error + connection) \<Rightarrow> process_env \<Rightarrow> keypair \<Rightarrow> query
    \<Rightarrow> io \<Rightarrow> http_response \<times> io" where
  "api_status lib net env payer q s =
     (case api_status_try lib net env payer q s of
        (Inr body, s') \<Rightarrow> (Json200 body, s')
      | (Inl e, s') \<Rightarrow> (Json500 (if message e \<noteq> [] then message e else ''Error''), s'))"

section \<open>The derivation engine and the schema resolver of the specification\<close>

text \<open>
  Modelled from the spec: the derive operation of section 4.2 over the Curve-Membership
  Hasher of section 4.1. The scripts delegate both to the library function
  \<open>PublicKey.findProgramAddressSync\<close>, whose code is not in the repository. The Hasher is
  a parameter: for a program id and a seed sequence it rejects (seed too long) or
  returns the digest and whether the digest is on the curve.
\<close>

datatype derive_error = InvalidSeedLength | DerivationExhausted

type_synonym hasher = "pubkey \<Rightarrow> bytes list \<Rightarrow> derive_error + (bytes \<times> bool)"

fun bump_search :: "hasher \<Rightarrow> pubkey \<Rightarrow> bytes list \<Rightarrow> nat \<Rightarrow> derive_error + (bytes \<times> nat)" where
  "bump_search H pid seeds 0 =
     (case H pid (seeds @ [[0]]) of
        Inl e \<Rightarrow> Inl e
      | Inr (digest, on_curve) \<Rightarrow>
          if \<not> on_curve then Inr (digest, 0) else Inl DerivationExhausted)"
| "bump_search H pid seeds (Suc b) =
     (case H pid (seeds @ [[of_nat (Suc b)]]) of
        Inl e \<Rightarrow> Inl e
      | Inr (digest, on_curve) \<Rightarrow>
          if \<not> on_curve then Inr (digest, Suc b) else bump_search H pid seeds b)"

definition derive :: "hasher \<Rightarrow> pubkey \<Rightarrow> bytes list \<Rightarrow> derive_error + (bytes \<times> nat)" where
  "derive H pid seeds = bump_search H pid seeds 255"

text \<open>
  Modelled from the spec: the seed schema of section 3 and the resolver of section 4.3,
  to compare with what the scripts derive. A seed component is a literal byte string, a
  root (the user or mint address, the market string, the nonce as an 8-byte little-endian
  integer) or the derived address of an upstream node. The reference schema lists the
  seven nodes in the order of the specification, \<open>slab-state\<close> before the three nodes
  that depend on it; the resolver evaluates a schema in list order and fails on an
  upstream node that has not been derived yet.
\<close>

datatype seed_component =
    Lit string
  | UserRoot
  | MintRoot
  | MarketRoot
  | NonceRoot
  | Upstream string

datatype program_ref = Router | Slab

record derivation_node =
  node_name :: string
  node_program :: program_ref
  node_seeds :: "seed_component list"

record roots =
  user :: pubkey
  mint :: pubkey
  market_name :: jsstring
  nonce :: int

record program_ids =
  router :: pubkey
  slab :: pubkey

type_synonym topology = "(string \<times> pubkey) list"

definition spec_reference_schema :: "derivation_node list" where
  "spec_reference_schema =
     [\<lparr>node_name = ''vault'', node_program = Router,
       node_seeds = [Lit ''vault'', MintRoot]\<rparr>,
      \<lparr>node_name = ''registry'', node_program = Router,
       node_seeds = [Lit ''registry'']\<rparr>,
      \<lparr>node_name = ''portfolio'', node_program = Router,
       node_seeds = [Lit ''portfolio'', UserRoot]\<rparr>,
      \<lparr>node_name = ''slab-state'', node_program = Slab,
       node_seeds = [Lit ''slab'', MarketRoot]\<rparr>,
      \<lparr>node_name = ''escrow'', node_program = Router,
       node_seeds = [Lit ''escrow'', UserRoot, Upstream ''slab-state'', MintRoot]\<rparr>,
      \<lparr>node_name = ''cap'', node_program = Router,
       node_seeds = [Lit ''cap'', UserRoot, Upstream ''slab-state'', MintRoot, NonceRoot]\<rparr>,
      \<lparr>node_name = ''authority'', node_program = Slab,
       node_seeds = [Lit ''authority'', Upstream ''slab-state'']\<rparr>]"

fun seed_value :: "roots \<Rightarrow> topology \<Rightarrow> seed_component \<Rightarrow> js_error + bytes" where
  "seed_value R topo (Lit s) = Inr (Buffer_from (js s))"
| "seed_value R topo UserRoot = Inr (user R)"
| "seed_value R topo MintRoot = Inr (mint R)"
| "seed_value R topo MarketRoot = Inr (Buffer_from (market_name R))"
| "seed_value R topo NonceRoot = u64LE (nonce R)"
| "seed_value R topo (Upstream n) =
     (case map_of topo n of
        None \<Rightarrow> Inl (JsError ''upstream node not derived'')
      | Some a \<Rightarrow> Inr a)"

fun seed_values :: "roots \<Rightarrow> topology \<Rightarrow> seed_component list \<Rightarrow> js_error + bytes list" where
  "seed_values R topo [] = Inr []"
| "seed_values R topo (c # cs) =
     bind_err (seed_value R topo c) (\<lambda>b.
     bind_err (seed_values R topo cs) (\<lambda>bs. Inr (b # bs)))"

definition program_of :: "program_ids \<Rightarrow> program_ref \<Rightarrow> pubkey" where
  "program_of P r = (case r of Router \<Rightarrow> router P | Slab \<Rightarrow> slab P)"

fun spec_resolve ::
  "web3 \<Rightarrow> program_ids \<Rightarrow> roots \<Rightarrow> topology \<Rightarrow> derivation_node list \<Rightarrow> js_error + topology" where
  "spec_resolve lib P R topo [] = Inr topo"
| "spec_resolve lib P R topo (n # ns) =
     bind_err (seed_values R topo (node_seeds n)) (\<lambda>seeds.
     bind_err (findProgramAddressSync lib seeds (program_of P (node_program n))) (\<lambda>(addr, _).
     spec_resolve lib P R (topo @ [(node_name n, addr)]) ns))"

section \<open>UTF-8 as the standard defines it\<close>







section \<open>Predicates used to state the properties\<close>





text \<open>
  A request respects the ledger's classification when, if it is a simulation, every
  instruction of its transaction is addressed at a program that the connection reports
  as an executable account, and it is never a submission.
\<close>

definition observed_executable :: "connection \<Rightarrow> pubkey \<Rightarrow> bool" where
  "observed_executable connection pid =
     (case getAccountInfo connection pid of
        Inr (Some i) \<Rightarrow> executable i
      | _ \<Rightarrow> False)"

definition targets_executable :: "connection \<Rightarrow> rpc_call \<Rightarrow> bool" where
  "targets_executable connection c =
     (case c of
        SimulateTransaction tx signers \<Rightarrow>
          list_all (\<lambda>ix. observed_executable connection (programId ix)) (instructions tx)
      | SendTransaction tx \<Rightarrow> False
      | _ \<Rightarrow> True)"

section \<open>A stand-in library and transport for running the model\<close>

text \<open>
  Concrete values for the two parameters, used only to evaluate the model on explicit
  inputs. They are not the library's algorithms: a key is decoded as the UTF-8 bytes of
  its string (the empty string is malformed), and the address derived from seeds is
  their concatenation followed by the program id, with bump 255.
\<close>

definition stub_web3 :: web3 where
  "stub_web3 =
     \<lparr>PublicKey_new = (\<lambda>s. if s = [] then Inl (JsError ''Invalid public key input'')
                             else Inr (Buffer_from s)),
      toBase58 = map (\<lambda>b. of_nat (unat b)),
      findProgramAddressSync = (\<lambda>seeds pid. Inr (concat seeds @ pid, 255))\<rparr>"


definition empty_ledger :: connection where
  "empty_ledger =
     \<lparr>getAccountInfo = (\<lambda>pk. Inr None),
      getLatestBlockhash = Inr (js ''h''),
      simulateTransaction = (\<lambda>tx signers. Inr \<lparr>logs = Some [js ''ok''], err = None\<rparr>),
      getVersion = Inr (js ''v'')\<rparr>"

definition io0 :: io where
  "io0 = \<lparr>calls = [], console = []\<rparr>"

definition payer0 :: keypair where
  "payer0 = \<lparr>publicKey = [85], secretKey = [0]\<rparr>"

definition env0 :: process_env where
  "env0 = \<lparr>env_RPC_URL = None, env_MARKET = None, env_SIMULATE = None, env_ROUTER_ID = None,
           env_SLAB_ID = None, env_USER = None, env_MINT = None, env_PAYER = None\<rparr>"

definition opts0 :: cli_opts where
  "opts0 = \<lparr>opt_simulate = True, opt_rpc = None, opt_router = None, opt_slab = None,
            opt_market = None, opt_user = None, opt_mint = None, opt_payer = None\<rparr>"

definition query0 :: query where
  "query0 = \<lparr>q_rpc = None, q_router = Some (js ''R''), q_slab = Some (js ''S''),
             q_market = None\<rparr>"

definition args0 :: pda_args where
  "args0 = \<lparr>routerPk = js ''R'', slabPk = js ''S'', userPk = js ''U'', mintPk = js ''M'',
            market = js ''BTC-PERP''\<rparr>"

definition cfg0 :: config where
  "cfg0 = \<lparr>RPC_URL = js ''http://127.0.0.1:8899'', MARKET = js ''BTC-PERP'', SIMULATE = True,
           ROUTER_ID = [82], SLAB_ID = [83], SYSTEM_ID = [49], MEMO_ID = [77]\<rparr>"

definition acct0 :: account_info where
  "acct0 = \<lparr>lamports = 5, owner = [7], executable = True, data = Some [1, 2, 3]\<rparr>"

text \<open>A ledger that holds one executable account, at the address \<open>[83]\<close>.\<close>

definition one_account :: connection where
  "one_account =
     empty_ledger\<lparr>getAccountInfo := (\<lambda>pk. if pk = [83] then Inr (Some acct0) else Inr None)\<rparr>"

text \<open>
  A ledger on which the router program \<open>[82]\<close> is an executable account during the
  version request and step 1 of the main function, and is gone from step 2 on.
\<close>

definition router_closed_after_step_1 :: "nat \<Rightarrow> connection" where
  "router_closed_after_step_1 n =
     (if n \<le> 1
      then empty_ledger\<lparr>getAccountInfo :=
             (\<lambda>pk. if pk = [82] then Inr (Some acct0) else Inr None)\<rparr>
      else empty_ledger)"


text \<open>
  Two stand-in hashers: the first rejects seeds of more than 32 bytes in total and
  classifies a digest as on the curve when the last seed byte (the bump) is above 253;
  the second classifies every digest as on the curve.
\<close>

definition stub_hasher :: hasher where
  "stub_hasher pid seeds =
     (if 32 < length (concat seeds) then Inl InvalidSeedLength
      else Inr (concat seeds @ pid, 253 < unat (last (concat seeds))))"

definition on_curve_hasher :: hasher where
  "on_curve_hasher pid seeds = Inr (concat seeds @ pid, True)"



section \<open>Evaluation rules\<close>


lemma u64LE_1: "u64LE 1 = Inr [1, 0, 0, 0, 0, 0, 0, 0]"
  by (simp add: u64LE_def upt_rec)

lemma bind_err_Inr_iff:
  "bind_err m k = Inr y \<longleftrightarrow> (\<exists>x. m = Inr x \<and> k x = Inr y)"
  by (cases m) (simp_all add: bind_err_def)

lemma await_rpc:
  "await (rpc c r) k s =
     (case r of Inl e \<Rightarrow> (Inl e, s\<lparr>calls := calls s @ [c]\<rparr>)
      | Inr x \<Rightarrow> k x (s\<lparr>calls := calls s @ [c]\<rparr>))"
  by (cases r) (simp_all add: await_def rpc_def)

lemma await_sync:
  "await (sync r) k s = (case r of Inl e \<Rightarrow> (Inl e, s) | Inr x \<Rightarrow> k x s)"
  by (cases r) (simp_all add: await_def sync_def)

lemma await_console_log:
  "await (console_log l) k s = k () (s\<lparr>console := console s @ [l]\<rparr>)"
  by (simp add: await_def console_log_def)

lemma await_apply:
  "await m k s = (case fst (m s) of Inl e \<Rightarrow> (Inl e, snd (m s)) | Inr x \<Rightarrow> k x (snd (m s)))"
  by (cases "m s"; cases "fst (m s)") (simp_all add: await_def)

lemma console_log_apply: "console_log l s = (Inr (), s\<lparr>console := console s @ [l]\<rparr>)"
  by (simp add: console_log_def)

lemma done_with_apply: "done_with x s = (Inr x, s)"
  by (simp add: done_with_def)

lemma sync_apply: "sync r s = (r, s)"
  by (simp add: sync_def)

lemma rpc_apply: "rpc c r s = (r, s\<lparr>calls := calls s @ [c]\<rparr>)"
  by (simp add: rpc_def)

section \<open>The derivation of the seven addresses\<close>

lemma deriveAllPDAs_Inr_iff:
  "deriveAllPDAs lib a = Inr r \<longleftrightarrow>
     (\<exists>router_id slab_id usr mnt v bv s bs e be c bc p bp g bg t bt.
        PublicKey_new lib (routerPk a) = Inr router_id \<and>
        PublicKey_new lib (slabPk a) = Inr slab_id \<and>
        PublicKey_new lib (userPk a) = Inr usr \<and>
        PublicKey_new lib (mintPk a) = Inr mnt \<and>
        findProgramAddressSync lib [Buffer_from (js ''vault''), mnt] router_id = Inr (v, bv) \<and>
        findProgramAddressSync lib [Buffer_from (js ''slab''), Buffer_from (market a)] slab_id = Inr (s, bs) \<and>
        findProgramAddressSync lib [Buffer_from (js ''escrow''), usr, s, mnt] router_id = Inr (e, be) \<and>
        findProgramAddressSync lib [Buffer_from (js ''cap''), usr, s, mnt, [1, 0, 0, 0, 0, 0, 0, 0]] router_id = Inr (c, bc) \<and>
        findProgramAddressSync lib [Buffer_from (js ''portfolio''), usr] router_id = Inr (p, bp) \<and>
        findProgramAddressSync lib [Buffer_from (js ''registry'')] router_id = Inr (g, bg) \<and>
        findProgramAddressSync lib [Buffer_from (js ''authority''), s] slab_id = Inr (t, bt) \<and>
        r = \<lparr>vaultPda = toBase58 lib v, escrowPda = toBase58 lib e, capPda = toBase58 lib c,
             portfolioPda = toBase58 lib p, registryPda = toBase58 lib g,
             slabStatePda = toBase58 lib s, authorityPda = toBase58 lib t\<rparr>)"
  unfolding deriveAllPDAs_def Let_def toBuffer_def u64LE_1
  by (simp only: bind_err_Inr_iff split_paired_Ex case_prod_conv sum.inject ex_simps) blast


lemma main_derive_cong:
  "ROUTER_ID cfg1 = ROUTER_ID cfg2 \<Longrightarrow> SLAB_ID cfg1 = SLAB_ID cfg2 \<Longrightarrow>
   Buffer_from (MARKET cfg1) = Buffer_from (MARKET cfg2) \<Longrightarrow>
     fst (main_derive lib cfg1 usr mnt s1) = fst (main_derive lib cfg2 usr mnt s2)"
  by (simp add: main_derive_def Let_def await_sync await_console_log done_with_apply u64LE_1
      split: sum.splits prod.splits)


section \<open>Running the model on the stand-in library\<close>

lemma js_simps:
  "js [] = []" "js (c # cs) = of_char c # js cs"
  by (simp_all add: js_def)

lemma stub_simps:
  "PublicKey_new stub_web3 s =
     (if s = [] then Inl (JsError ''Invalid public key input'') else Inr (Buffer_from s))"
  "toBase58 stub_web3 = map (\<lambda>b. of_nat (unat b))"
  "findProgramAddressSync stub_web3 seeds pid = Inr (concat seeds @ pid, 255)"
  by (simp_all add: stub_web3_def)

lemmas run_simps =
  bind_err_def Let_def stub_simps js_simps utf8_unit_def toBuffer_def u64LE_1
  await_apply sync_apply done_with_apply rpc_apply console_log_apply try_catch_def
  or_default_def js_or_def truthy_def io0_def

lemmas dashboard_simps =
  api_status_def api_status_try_def deriveAllPDAs_def presence_entry_def
  dashboard_getPresence_def DEFAULT_RPC_def DEFAULT_ROUTER_def DEFAULT_SLAB_def
  DEFAULT_MARKET_def dashboard_SYSTEM_ID_def dashboard_MEMO_ID_def

section \<open>The handler of the dashboard\<close>

lemma api_status_200D:
  assumes "fst (api_status lib net env payer q s) = Json200 body"
  shows "\<exists>connection p s1.
           net (or_default (q_rpc q) (DEFAULT_RPC env)) = Inr connection \<and>
           deriveAllPDAs lib
             \<lparr>routerPk = or_default (q_router q) DEFAULT_ROUTER,
              slabPk = or_default (q_slab q) DEFAULT_SLAB,
              userPk = toBase58 lib (publicKey payer),
              mintPk = toBase58 lib (publicKey payer),
              market = or_default (q_market q) DEFAULT_MARKET\<rparr> = Inr p \<and>
           res_pdas body =
             [(''Vault PDA'', vaultPda p), (''Escrow PDA'', escrowPda p),
              (''Cap PDA (nonce=1)'', capPda p), (''Portfolio PDA'', portfolioPda p),
              (''Registry PDA'', registryPda p), (''Slab State PDA'', slabStatePda p),
              (''Authority PDA'', authorityPda p)] \<and>
           res_user body = toBase58 lib (publicKey payer) \<and>
           res_mint body = toBase58 lib (publicKey payer) \<and>
           res_payer body = toBase58 lib (publicKey payer) \<and>
           fst (metas_loop lib connection
                  ([(''System'', dashboard_SYSTEM_ID), (''Memo'', dashboard_MEMO_ID),
                    (''Router'', or_default (q_router q) DEFAULT_ROUTER),
                    (''Slab'', or_default (q_slab q) DEFAULT_SLAB)] @ res_pdas body) [] s1)
             = Inr (res_metas body)"
  using assms
  by (auto simp add: api_status_def api_status_try_def Let_def await_apply sync_apply
      done_with_apply simp del: metas_loop.simps Promise_all.simps
      split: sum.splits prod.splits)


section \<open>The simulation step\<close>

lemma simulateNoop_eq:
  "simulateNoop connection payer pid s =
     (case getLatestBlockhash connection of
        Inl e \<Rightarrow> (Inl e, s\<lparr>calls := calls s @ [GetLatestBlockhash]\<rparr>)
      | Inr blockhash \<Rightarrow>
          (let tx = \<lparr>instructions =
                       [\<lparr>keys = [\<lparr>pubkey = publicKey payer, isSigner = True, isWritable = False\<rparr>],
                         programId = pid, ix_data = []\<rparr>],
                     feePayer = Some (publicKey payer),
                     recentBlockhash = Some blockhash,
                     signatures = [publicKey payer]\<rparr>
           in (simulateTransaction connection tx [payer],
               s\<lparr>calls := calls s @ [GetLatestBlockhash, SimulateTransaction tx [payer]]\<rparr>)))"
  by (cases "getLatestBlockhash connection")
     (auto simp add: simulateNoop_def Let_def await_rpc done_with_def split: sum.splits)

lemma simulateNoop_snd:
  "snd (simulateNoop c p pid s) = s\<lparr>calls := calls s @ calls (snd (simulateNoop c p pid io0))\<rparr>"
  by (simp add: simulateNoop_eq Let_def io0_def split: sum.splits)

lemma try_block:
  "try_catch (await m (\<lambda>res. await (console_log (f res)) (\<lambda>_. console_log (g res))))
             (\<lambda>e. console_log (h e)) s =
     (Inr (), (snd (m s))\<lparr>console := console (snd (m s)) @
        (case fst (m s) of Inl e \<Rightarrow> [h e] | Inr res \<Rightarrow> [f res, g res])\<rparr>)"
  by (cases "m s"; cases "fst (m s)")
     (simp_all add: try_catch_def await_def console_log_def)

lemmas main_simulate_simps =
  main_simulate_def await_apply try_block console_log_apply done_with_apply
  simulateNoop_snd [of _ _ _ "_\<lparr>console := _\<rparr>"]

lemma main_simulate_fst: "fst (main_simulate connection payer cfg rp sp s) = Inr ()"
  by (simp add: main_simulate_simps)

lemma main_simulate_calls:
  "calls (snd (main_simulate connection payer cfg rp sp s)) =
     calls s @
     (if SIMULATE cfg \<and> rp = ''executable program''
      then calls (snd (simulateNoop connection payer (ROUTER_ID cfg) io0)) else []) @
     (if SIMULATE cfg \<and> sp = ''executable program''
      then calls (snd (simulateNoop connection payer (SLAB_ID cfg) io0)) else [])"
  by (simp add: main_simulate_simps)

lemma main_simulate_skip_router:
  "SIMULATE cfg \<Longrightarrow> rp \<noteq> ''executable program'' \<Longrightarrow>
     [Str ''Skipping Router simulate (account not found or not executable).'']
       \<in> set (drop (length (console s))
                (console (snd (main_simulate connection payer cfg rp sp s))))"
  by (simp add: main_simulate_simps)

lemma main_simulate_skip_slab:
  "SIMULATE cfg \<Longrightarrow> sp \<noteq> ''executable program'' \<Longrightarrow>
     [Str ''Skipping Slab simulate (account not found or not executable).'']
       \<in> set (drop (length (console s))
                (console (snd (main_simulate connection payer cfg rp sp s))))"
  by (simp add: main_simulate_simps)

lemma getPresence_executable_iff:
  "fst (getPresence connection pid s) = Inr ''executable program'' \<longleftrightarrow>
     (\<exists>i. getAccountInfo connection pid = Inr (Some i) \<and> executable i)"
  by (auto simp add: getPresence_def await_rpc done_with_def split: sum.splits option.splits)

section \<open>The market seed\<close>


section \<open>Properties of the scripts\<close>

subsection \<open>C1: derivation is deterministic\<close>

lemma api_status_empty_ledger:
  "is_Json200 (fst (api_status stub_web3 (\<lambda>u. Inr empty_ledger) env0 payer0 query0 io0))"
  by (simp add: run_simps dashboard_simps empty_ledger_def env0_def payer0_def query0_def)

lemma api_status_one_account:
  "is_Json200 (fst (api_status stub_web3 (\<lambda>u. Inr one_account) env0 payer0
     (query0\<lparr>q_rpc := Some (js ''http://other'')\<rparr>) \<lparr>calls = [GetVersion], console = []\<rparr>))"
  by (simp add: run_simps dashboard_simps empty_ledger_def one_account_def env0_def payer0_def query0_def)

text \<open>
  C1. The derive operation is the library call \<open>findProgramAddressSync\<close>, in the model a
  function of the seeds and the program id. The topology derived from it depends on the
  roots and the program ids only: in \<open>interact-percolator.js\<close> two derivations with the
  same user, mint, market, router and slab return the same result (addresses or error)
  whatever the other settings and whatever was sent or printed before; in the dashboard
  two successful requests with the same payer and the same router, slab and market
  parameters report the same seven addresses, user and mint, whatever the endpoint, the
  ledger behind it and the environment.
\<close>

theorem derivation_depends_on_roots_only:
  "(ROUTER_ID cfg1 = ROUTER_ID cfg2 \<and> SLAB_ID cfg1 = SLAB_ID cfg2 \<and> MARKET cfg1 = MARKET cfg2 \<longrightarrow>
      fst (main_derive lib cfg1 usr mnt s1) = fst (main_derive lib cfg2 usr mnt s2)) \<and>
   (fst (api_status lib net1 env1 payer1 q1 s1) = Json200 body1 \<and>
    fst (api_status lib net2 env2 payer2 q2 s2) = Json200 body2 \<and>
    publicKey payer1 = publicKey payer2 \<and>
    q_router q1 = q_router q2 \<and> q_slab q1 = q_slab q2 \<and> q_market q1 = q_market q2 \<longrightarrow>
      res_pdas body1 = res_pdas body2 \<and> res_user body1 = res_user body2 \<and>
      res_mint body1 = res_mint body2)"
proof (intro conjI impI)
  assume "ROUTER_ID cfg1 = ROUTER_ID cfg2 \<and> SLAB_ID cfg1 = SLAB_ID cfg2 \<and> MARKET cfg1 = MARKET cfg2"
  then show "fst (main_derive lib cfg1 usr mnt s1) = fst (main_derive lib cfg2 usr mnt s2)"
    by (intro main_derive_cong) simp_all
next
  assume h: "fst (api_status lib net1 env1 payer1 q1 s1) = Json200 body1 \<and>
    fst (api_status lib net2 env2 payer2 q2 s2) = Json200 body2 \<and>
    publicKey payer1 = publicKey payer2 \<and>
    q_router q1 = q_router q2 \<and> q_slab q1 = q_slab q2 \<and> q_market q1 = q_market q2"
  from h api_status_200D [of lib net1 env1 payer1 q1 s1 body1]
  obtain p1 where p1:
    "deriveAllPDAs lib
       \<lparr>routerPk = or_default (q_router q1) DEFAULT_ROUTER,
        slabPk = or_default (q_slab q1) DEFAULT_SLAB,
        userPk = toBase58 lib (publicKey payer1),
        mintPk = toBase58 lib (publicKey payer1),
        market = or_default (q_market q1) DEFAULT_MARKET\<rparr> = Inr p1"
    "res_pdas body1 =
       [(''Vault PDA'', vaultPda p1), (''Escrow PDA'', escrowPda p1),
        (''Cap PDA (nonce=1)'', capPda p1), (''Portfolio PDA'', portfolioPda p1),
        (''Registry PDA'', registryPda p1), (''Slab State PDA'', slabStatePda p1),
        (''Authority PDA'', authorityPda p1)]"
    "res_user body1 = toBase58 lib (publicKey payer1)"
    "res_mint body1 = toBase58 lib (publicKey payer1)"
    by blast
  from h api_status_200D [of lib net2 env2 payer2 q2 s2 body2]
  obtain p2 where p2:
    "deriveAllPDAs lib
       \<lparr>routerPk = or_default (q_router q2) DEFAULT_ROUTER,
        slabPk = or_default (q_slab q2) DEFAULT_SLAB,
        userPk = toBase58 lib (publicKey payer2),
        mintPk = toBase58 lib (publicKey payer2),
        market = or_default (q_market q2) DEFAULT_MARKET\<rparr> = Inr p2"
    "res_pdas body2 =
       [(''Vault PDA'', vaultPda p2), (''Escrow PDA'', escrowPda p2),
        (''Cap PDA (nonce=1)'', capPda p2), (''Portfolio PDA'', portfolioPda p2),
        (''Registry PDA'', registryPda p2), (''Slab State PDA'', slabStatePda p2),
        (''Authority PDA'', authorityPda p2)]"
    "res_user body2 = toBase58 lib (publicKey payer2)"
    "res_mint body2 = toBase58 lib (publicKey payer2)"
    by blast
  from h p1(1) p2(1) have "p1 = p2" by simp
  with h p1 p2 show "res_pdas body1 = res_pdas body2" "res_user body1 = res_user body2"
    "res_mint body1 = res_mint body2"
    by simp_all
qed

theorem derivation_depends_on_roots_only_witness:
  "is_Json200 (fst (api_status stub_web3 (\<lambda>u. Inr empty_ledger) env0 payer0 query0 io0)) \<and>
   is_Json200 (fst (api_status stub_web3 (\<lambda>u. Inr one_account) env0 payer0
     (query0\<lparr>q_rpc := Some (js ''http://other'')\<rparr>) \<lparr>calls = [GetVersion], console = []\<rparr>)) \<and>
   res_pdas (json_body (fst (api_status stub_web3 (\<lambda>u. Inr empty_ledger) env0 payer0 query0 io0))) =
   res_pdas (json_body (fst (api_status stub_web3 (\<lambda>u. Inr one_account) env0 payer0
     (query0\<lparr>q_rpc := Some (js ''http://other'')\<rparr>) \<lparr>calls = [GetVersion], console = []\<rparr>))) \<and>
   fst (main_derive stub_web3 cfg0 [85] [85] io0) =
   fst (main_derive stub_web3 (cfg0\<lparr>RPC_URL := js ''http://other'', SIMULATE := False\<rparr>) [85] [85]
          \<lparr>calls = [GetVersion], console = []\<rparr>)"
proof -
  let ?A = "fst (api_status stub_web3 (\<lambda>u. Inr empty_ledger) env0 payer0 query0 io0)"
  let ?B = "fst (api_status stub_web3 (\<lambda>u. Inr one_account) env0 payer0
     (query0\<lparr>q_rpc := Some (js ''http://other'')\<rparr>) \<lparr>calls = [GetVersion], console = []\<rparr>)"
  have a: "?A = Json200 (json_body ?A)" using api_status_empty_ledger by simp
  have b: "?B = Json200 (json_body ?B)" using api_status_one_account by simp
  from derivation_depends_on_roots_only
         [of cfg0 "cfg0\<lparr>RPC_URL := js ''http://other'', SIMULATE := False\<rparr>" stub_web3
             "[85]" "[85]" io0 "\<lparr>calls = [GetVersion], console = []\<rparr>"
             "\<lambda>u. Inr empty_ledger" env0 payer0 query0 "json_body ?A"
             "\<lambda>u. Inr one_account" env0 payer0 "query0\<lparr>q_rpc := Some (js ''http://other'')\<rparr>"
             "json_body ?B"]
  show ?thesis
    using a b api_status_empty_ledger api_status_one_account by simp
qed

subsection \<open>C2: the bump search\<close>

lemma bump_search_Inr_iff:
  "bump_search H pid seeds n = Inr (a, b) \<longleftrightarrow>
     b \<le> n \<and> H pid (seeds @ [[of_nat b]]) = Inr (a, False) \<and>
     (\<forall>b'. b < b' \<and> b' \<le> n \<longrightarrow> (\<exists>d. H pid (seeds @ [[of_nat b']]) = Inr (d, True)))"
proof (induction n)
  case 0
  show ?case
    by (cases "H pid (seeds @ [[0]])") (auto split: prod.splits)
next
  case (Suc n)
  show ?case
  proof (cases "H pid (seeds @ [[of_nat (Suc n)]])")
    case (Inl e)
    have "\<not> (b \<le> Suc n \<and> H pid (seeds @ [[of_nat b]]) = Inr (a, False) \<and>
      (\<forall>b'. b < b' \<and> b' \<le> Suc n \<longrightarrow> (\<exists>d. H pid (seeds @ [[of_nat b']]) = Inr (d, True))))"
    proof
      assume h: "b \<le> Suc n \<and> H pid (seeds @ [[of_nat b]]) = Inr (a, False) \<and>
        (\<forall>b'. b < b' \<and> b' \<le> Suc n \<longrightarrow> (\<exists>d. H pid (seeds @ [[of_nat b']]) = Inr (d, True)))"
      show False
      proof (cases "b = Suc n")
        case True
        with h Inl show False by simp
      next
        case False
        with h have "b < Suc n \<and> Suc n \<le> Suc n" by simp
        with h have "\<exists>d. H pid (seeds @ [[of_nat (Suc n)]]) = Inr (d, True)" by blast
        with Inl show False by simp
      qed
    qed
    with Inl show ?thesis by simp
  next
    case (Inr r)
    obtain d c where r: "r = (d, c)" by (cases r)
    show ?thesis
    proof (cases c)
      case False
      have "(b \<le> Suc n \<and> H pid (seeds @ [[of_nat b]]) = Inr (a, False) \<and>
        (\<forall>b'. b < b' \<and> b' \<le> Suc n \<longrightarrow> (\<exists>d. H pid (seeds @ [[of_nat b']]) = Inr (d, True))))
        \<longleftrightarrow> (a = d \<and> b = Suc n)"
      proof
        assume h: "b \<le> Suc n \<and> H pid (seeds @ [[of_nat b]]) = Inr (a, False) \<and>
          (\<forall>b'. b < b' \<and> b' \<le> Suc n \<longrightarrow> (\<exists>d. H pid (seeds @ [[of_nat b']]) = Inr (d, True)))"
        have "b = Suc n"
        proof (rule ccontr)
          assume "b \<noteq> Suc n"
          with h have "b < Suc n \<and> Suc n \<le> Suc n" by simp
          with h have "\<exists>d. H pid (seeds @ [[of_nat (Suc n)]]) = Inr (d, True)" by blast
          with Inr r False show False by simp
        qed
        with h Inr r False show "a = d \<and> b = Suc n" by simp
      next
        assume "a = d \<and> b = Suc n"
        with Inr r False show "b \<le> Suc n \<and> H pid (seeds @ [[of_nat b]]) = Inr (a, False) \<and>
          (\<forall>b'. b < b' \<and> b' \<le> Suc n \<longrightarrow> (\<exists>d. H pid (seeds @ [[of_nat b']]) = Inr (d, True)))"
          by auto
      qed
      with Inr r False show ?thesis by auto
    next
      case True
      have "(b \<le> Suc n \<and> H pid (seeds @ [[of_nat b]]) = Inr (a, False) \<and>
        (\<forall>b'. b < b' \<and> b' \<le> Suc n \<longrightarrow> (\<exists>d. H pid (seeds @ [[of_nat b']]) = Inr (d, True))))
        \<longleftrightarrow> (b \<le> n \<and> H pid (seeds @ [[of_nat b]]) = Inr (a, False) \<and>
        (\<forall>b'. b < b' \<and> b' \<le> n \<longrightarrow> (\<exists>d. H pid (seeds @ [[of_nat b']]) = Inr (d, True))))"
        (is "?L \<longleftrightarrow> ?R")
      proof
        assume h: ?L
        have "b \<noteq> Suc n" using h Inr r True by auto
        with h show ?R by auto
      next
        assume h: ?R
        have "\<And>b'. b < b' \<and> b' \<le> Suc n \<Longrightarrow> \<exists>d. H pid (seeds @ [[of_nat b']]) = Inr (d, True)"
        proof -
          fix b' assume b': "b < b' \<and> b' \<le> Suc n"
          show "\<exists>d. H pid (seeds @ [[of_nat b']]) = Inr (d, True)"
          proof (cases "b' = Suc n")
            case True
            with Inr r \<open>c\<close> show ?thesis by simp
          next
            case False
            with b' have "b < b' \<and> b' \<le> n" by simp
            with h show ?thesis by blast
          qed
        qed
        with h show ?L by auto
      qed
      with Inr r True Suc.IH show ?thesis by simp
    qed
  qed
qed

lemma bump_search_exhausted:
  "(\<forall>b \<le> n. \<exists>d. H pid (seeds @ [[of_nat b]]) = Inr (d, True)) \<Longrightarrow>
     bump_search H pid seeds n = Inl DerivationExhausted"
proof (induction n)
  case 0
  then obtain d where "H pid (seeds @ [[0]]) = Inr (d, True)" by auto
  then show ?case by simp
next
  case (Suc n)
  then obtain d where "H pid (seeds @ [[of_nat (Suc n)]]) = Inr (d, True)" by blast
  moreover from Suc.prems have "\<forall>b \<le> n. \<exists>d. H pid (seeds @ [[of_nat b]]) = Inr (d, True)"
    by auto
  ultimately show ?case using Suc.IH by simp
qed

lemma bump_search_never_on_curve:
  "(\<forall>b \<le> n. \<forall>d. H pid (seeds @ [[of_nat b]]) \<noteq> Inr (d, False)) \<Longrightarrow>
     \<exists>e. bump_search H pid seeds n = Inl e"
proof (cases "bump_search H pid seeds n")
  case (Inl e)
  then show ?thesis by simp
next
  case (Inr r)
  assume h: "\<forall>b \<le> n. \<forall>d. H pid (seeds @ [[of_nat b]]) \<noteq> Inr (d, False)"
  obtain a b where "r = (a, b)" by (cases r)
  with Inr have "bump_search H pid seeds n = Inr (a, b)" by simp
  then have "b \<le> n \<and> H pid (seeds @ [[of_nat b]]) = Inr (a, False)"
    unfolding bump_search_Inr_iff by simp
  with h show ?thesis by blast
qed

text \<open>
  C2. The derive operation of the specification appends one seed of one byte, the bump,
  and tries the bumps from 255 down to 0. It returns an address and a bump exactly when
  the Hasher classifies the digest for that bump as off the curve, the address is that
  digest, and the Hasher classified the digest of every higher bump up to 255 as on the
  curve. When the Hasher classifies the digests of all 256 bumps as on the curve, derive
  fails with \<open>DerivationExhausted\<close>; and whenever no bump gives an off-curve digest,
  derive returns an error and no address.
\<close>

theorem derive_first_off_curve_bump:
  "(derive H pid seeds = Inr (a, b) \<longleftrightarrow>
      b \<le> 255 \<and> H pid (seeds @ [[of_nat b]]) = Inr (a, False) \<and>
      (\<forall>b'. b < b' \<and> b' \<le> 255 \<longrightarrow> (\<exists>d. H pid (seeds @ [[of_nat b']]) = Inr (d, True)))) \<and>
   ((\<forall>b \<le> 255. \<exists>d. H pid (seeds @ [[of_nat b]]) = Inr (d, True)) \<longrightarrow>
      derive H pid seeds = Inl DerivationExhausted) \<and>
   ((\<forall>b \<le> 255. \<forall>d. H pid (seeds @ [[of_nat b]]) \<noteq> Inr (d, False)) \<longrightarrow>
      (\<exists>e. derive H pid seeds = Inl e))"
  unfolding derive_def
  using bump_search_Inr_iff [of H pid seeds 255 a b] bump_search_exhausted [of 255 H pid seeds]
    bump_search_never_on_curve [of 255 H pid seeds]
  by blast

lemma derive_stub_hasher: "derive stub_hasher [9] [[1]] = Inr ([1, 253, 9], 253)"
  unfolding derive_def by code_simp

theorem derive_first_off_curve_bump_witness:
  "derive stub_hasher [9] [[1]] = Inr ([1, 253, 9], 253) \<and>
   stub_hasher [9] ([[1]] @ [[253]]) = Inr ([1, 253, 9], False) \<and>
   stub_hasher [9] ([[1]] @ [[254]]) = Inr ([1, 254, 9], True) \<and>
   stub_hasher [9] ([[1]] @ [[255]]) = Inr ([1, 255, 9], True) \<and>
   derive on_curve_hasher [9] [[1]] = Inl DerivationExhausted"
  using derive_first_off_curve_bump [of stub_hasher "[9]" "[[1]]" "[1, 253, 9]" 253]
    derive_first_off_curve_bump [of on_curve_hasher "[9]" "[[1]]" "[]" 0]
    derive_stub_hasher
  by (simp add: stub_hasher_def on_curve_hasher_def)

subsection \<open>C3: the seven-node schema\<close>

lemma resolve_reference_Inr_iff:
  "spec_resolve lib P R [] spec_reference_schema = Inr topo \<longleftrightarrow>
     (\<exists>v bv g bg p bp s bs e be n c bc t bt.
        findProgramAddressSync lib [Buffer_from (js ''vault''), mint R] (router P) = Inr (v, bv) \<and>
        findProgramAddressSync lib [Buffer_from (js ''registry'')] (router P) = Inr (g, bg) \<and>
        findProgramAddressSync lib [Buffer_from (js ''portfolio''), user R] (router P) = Inr (p, bp) \<and>
        findProgramAddressSync lib [Buffer_from (js ''slab''), Buffer_from (market_name R)] (slab P)
          = Inr (s, bs) \<and>
        findProgramAddressSync lib [Buffer_from (js ''escrow''), user R, s, mint R] (router P)
          = Inr (e, be) \<and>
        u64LE (nonce R) = Inr n \<and>
        findProgramAddressSync lib [Buffer_from (js ''cap''), user R, s, mint R, n] (router P)
          = Inr (c, bc) \<and>
        findProgramAddressSync lib [Buffer_from (js ''authority''), s] (slab P) = Inr (t, bt) \<and>
        topo = [(''vault'', v), (''registry'', g), (''portfolio'', p), (''slab-state'', s),
                (''escrow'', e), (''cap'', c), (''authority'', t)])"
  unfolding spec_reference_schema_def
  by (simp add: bind_err_Inr_iff program_of_def split_paired_Ex) blast

lemma main_derive_Inr_iff:
  "fst (main_derive lib cfg usr mnt st) = Inr q \<longleftrightarrow>
     (\<exists>bv bs be bc bp bg bt.
        findProgramAddressSync lib [Buffer_from (js ''vault''), mnt] (ROUTER_ID cfg)
          = Inr (vaultPda q, bv) \<and>
        findProgramAddressSync lib [Buffer_from (js ''slab''), Buffer_from (MARKET cfg)] (SLAB_ID cfg)
          = Inr (slabStatePda q, bs) \<and>
        findProgramAddressSync lib [Buffer_from (js ''escrow''), usr, slabStatePda q, mnt]
          (ROUTER_ID cfg) = Inr (escrowPda q, be) \<and>
        findProgramAddressSync lib
          [Buffer_from (js ''cap''), usr, slabStatePda q, mnt, [1, 0, 0, 0, 0, 0, 0, 0]]
          (ROUTER_ID cfg) = Inr (capPda q, bc) \<and>
        findProgramAddressSync lib [Buffer_from (js ''portfolio''), usr] (ROUTER_ID cfg)
          = Inr (portfolioPda q, bp) \<and>
        findProgramAddressSync lib [Buffer_from (js ''registry'')] (ROUTER_ID cfg)
          = Inr (registryPda q, bg) \<and>
        findProgramAddressSync lib [Buffer_from (js ''authority''), slabStatePda q] (SLAB_ID cfg)
          = Inr (authorityPda q, bt))"
  by (cases q)
     (auto simp add: main_derive_def Let_def await_sync await_console_log done_with_apply
        u64LE_1 toBuffer_def split: sum.splits prod.splits)

text \<open>
  C3, as the code has it. The nonce is not an input: both scripts derive the cap address
  with the constant nonce 1. For every user, mint, market, router and slab,
  \<open>deriveAllPDAs\<close> returns seven addresses exactly when the four keys decode and the
  resolver of the specification, run on the reference schema with these roots and the
  nonce 1, derives seven addresses; the addresses are the same, node by node. The
  derivation block of \<open>interact-percolator.js\<close> agrees with the resolver in the same way,
  and fails exactly when the resolver fails. In the schema the slab state node comes
  before the three nodes that take its address as a seed.
\<close>

theorem derivation_follows_reference_schema:
  "(deriveAllPDAs lib a = Inr r \<longleftrightarrow>
      (\<exists>router_id slab_id usr mnt v g p s e c t.
         PublicKey_new lib (routerPk a) = Inr router_id \<and>
         PublicKey_new lib (slabPk a) = Inr slab_id \<and>
         PublicKey_new lib (userPk a) = Inr usr \<and>
         PublicKey_new lib (mintPk a) = Inr mnt \<and>
         spec_resolve lib \<lparr>router = router_id, slab = slab_id\<rparr>
           \<lparr>user = usr, mint = mnt, market_name = market a, nonce = 1\<rparr> [] spec_reference_schema =
           Inr [(''vault'', v), (''registry'', g), (''portfolio'', p), (''slab-state'', s),
                (''escrow'', e), (''cap'', c), (''authority'', t)] \<and>
         r = \<lparr>vaultPda = toBase58 lib v, escrowPda = toBase58 lib e, capPda = toBase58 lib c,
              portfolioPda = toBase58 lib p, registryPda = toBase58 lib g,
              slabStatePda = toBase58 lib s, authorityPda = toBase58 lib t\<rparr>)) \<and>
   (fst (main_derive lib cfg usr' mnt' st) = Inr q \<longleftrightarrow>
      spec_resolve lib \<lparr>router = ROUTER_ID cfg, slab = SLAB_ID cfg\<rparr>
        \<lparr>user = usr', mint = mnt', market_name = MARKET cfg, nonce = 1\<rparr> [] spec_reference_schema =
        Inr [(''vault'', vaultPda q), (''registry'', registryPda q),
             (''portfolio'', portfolioPda q), (''slab-state'', slabStatePda q),
             (''escrow'', escrowPda q), (''cap'', capPda q), (''authority'', authorityPda q)]) \<and>
   (isl (fst (main_derive lib cfg usr' mnt' st)) \<longleftrightarrow>
      isl (spec_resolve lib \<lparr>router = ROUTER_ID cfg, slab = SLAB_ID cfg\<rparr>
        \<lparr>user = usr', mint = mnt', market_name = MARKET cfg, nonce = 1\<rparr> [] spec_reference_schema))"
proof (intro conjI)
  show "deriveAllPDAs lib a = Inr r \<longleftrightarrow>
      (\<exists>router_id slab_id usr mnt v g p s e c t.
         PublicKey_new lib (routerPk a) = Inr router_id \<and>
         PublicKey_new lib (slabPk a) = Inr slab_id \<and>
         PublicKey_new lib (userPk a) = Inr usr \<and>
         PublicKey_new lib (mintPk a) = Inr mnt \<and>
         spec_resolve lib \<lparr>router = router_id, slab = slab_id\<rparr>
           \<lparr>user = usr, mint = mnt, market_name = market a, nonce = 1\<rparr> [] spec_reference_schema =
           Inr [(''vault'', v), (''registry'', g), (''portfolio'', p), (''slab-state'', s),
                (''escrow'', e), (''cap'', c), (''authority'', t)] \<and>
         r = \<lparr>vaultPda = toBase58 lib v, escrowPda = toBase58 lib e, capPda = toBase58 lib c,
              portfolioPda = toBase58 lib p, registryPda = toBase58 lib g,
              slabStatePda = toBase58 lib s, authorityPda = toBase58 lib t\<rparr>)"
    unfolding deriveAllPDAs_Inr_iff resolve_reference_Inr_iff
    by (simp add: u64LE_1) blast
next
  show second: "\<And>q. fst (main_derive lib cfg usr' mnt' st) = Inr q \<longleftrightarrow>
      spec_resolve lib \<lparr>router = ROUTER_ID cfg, slab = SLAB_ID cfg\<rparr>
        \<lparr>user = usr', mint = mnt', market_name = MARKET cfg, nonce = 1\<rparr> [] spec_reference_schema =
        Inr [(''vault'', vaultPda q), (''registry'', registryPda q),
             (''portfolio'', portfolioPda q), (''slab-state'', slabStatePda q),
             (''escrow'', escrowPda q), (''cap'', capPda q), (''authority'', authorityPda q)]"
    unfolding main_derive_Inr_iff resolve_reference_Inr_iff
    by (simp add: u64LE_1) blast
  show "isl (fst (main_derive lib cfg usr' mnt' st)) \<longleftrightarrow>
      isl (spec_resolve lib \<lparr>router = ROUTER_ID cfg, slab = SLAB_ID cfg\<rparr>
        \<lparr>user = usr', mint = mnt', market_name = MARKET cfg, nonce = 1\<rparr> [] spec_reference_schema)"
  proof (cases "fst (main_derive lib cfg usr' mnt' st)")
    case (Inr q)
    with second [of q] show ?thesis by simp
  next
    case (Inl err1)
    show ?thesis
    proof (cases "spec_resolve lib \<lparr>router = ROUTER_ID cfg, slab = SLAB_ID cfg\<rparr>
        \<lparr>user = usr', mint = mnt', market_name = MARKET cfg, nonce = 1\<rparr> [] spec_reference_schema")
      case (Inl err2)
      with \<open>fst (main_derive lib cfg usr' mnt' st) = Inl err1\<close> show ?thesis by simp
    next
      case (Inr topo)
      then obtain v g p s e c t where
        "topo = [(''vault'', v), (''registry'', g), (''portfolio'', p), (''slab-state'', s),
                 (''escrow'', e), (''cap'', c), (''authority'', t)]"
        unfolding resolve_reference_Inr_iff by blast
      with Inr second [of "\<lparr>vaultPda = v, escrowPda = e, capPda = c, portfolioPda = p,
                            registryPda = g, slabStatePda = s, authorityPda = t\<rparr>"]
      have "fst (main_derive lib cfg usr' mnt' st) =
              Inr \<lparr>vaultPda = v, escrowPda = e, capPda = c, portfolioPda = p,
                   registryPda = g, slabStatePda = s, authorityPda = t\<rparr>"
        by simp
      with \<open>fst (main_derive lib cfg usr' mnt' st) = Inl err1\<close> show ?thesis by simp
    qed
  qed
qed

lemma resolve_stub_nonce_1:
  "spec_resolve stub_web3 \<lparr>router = [82], slab = [83]\<rparr>
     \<lparr>user = [85], mint = [77], market_name = js ''BTC-PERP'', nonce = 1\<rparr> [] spec_reference_schema =
     Inr [(''vault'', [118, 97, 117, 108, 116, 77, 82]),
          (''registry'', [114, 101, 103, 105, 115, 116, 114, 121, 82]),
          (''portfolio'', [112, 111, 114, 116, 102, 111, 108, 105, 111, 85, 82]),
          (''slab-state'', [115, 108, 97, 98, 66, 84, 67, 45, 80, 69, 82, 80, 83]),
          (''escrow'', [101, 115, 99, 114, 111, 119, 85, 115, 108, 97, 98, 66, 84, 67, 45, 80,
                        69, 82, 80, 83, 77, 82]),
          (''cap'', [99, 97, 112, 85, 115, 108, 97, 98, 66, 84, 67, 45, 80, 69, 82, 80, 83, 77,
                     1, 0, 0, 0, 0, 0, 0, 0, 82]),
          (''authority'', [97, 117, 116, 104, 111, 114, 105, 116, 121, 115, 108, 97, 98, 66, 84,
                           67, 45, 80, 69, 82, 80, 83, 83])]"
  by (simp add: spec_reference_schema_def program_of_def run_simps)

theorem derivation_follows_reference_schema_witness:
  "deriveAllPDAs stub_web3 args0 =
     Inr \<lparr>vaultPda = [118, 97, 117, 108, 116, 77, 82],
          escrowPda = [101, 115, 99, 114, 111, 119, 85, 115, 108, 97, 98, 66, 84, 67, 45, 80,
                       69, 82, 80, 83, 77, 82],
          capPda = [99, 97, 112, 85, 115, 108, 97, 98, 66, 84, 67, 45, 80, 69, 82, 80, 83, 77,
                    1, 0, 0, 0, 0, 0, 0, 0, 82],
          portfolioPda = [112, 111, 114, 116, 102, 111, 108, 105, 111, 85, 82],
          registryPda = [114, 101, 103, 105, 115, 116, 114, 121, 82],
          slabStatePda = [115, 108, 97, 98, 66, 84, 67, 45, 80, 69, 82, 80, 83],
          authorityPda = [97, 117, 116, 104, 111, 114, 105, 116, 121, 115, 108, 97, 98, 66, 84,
                          67, 45, 80, 69, 82, 80, 83, 83]\<rparr>"
proof -
  have k: "PublicKey_new stub_web3 (routerPk args0) = Inr [82]"
    "PublicKey_new stub_web3 (slabPk args0) = Inr [83]"
    "PublicKey_new stub_web3 (userPk args0) = Inr [85]"
    "PublicKey_new stub_web3 (mintPk args0) = Inr [77]"
    "market args0 = js ''BTC-PERP''"
    by (simp_all add: args0_def run_simps)
  have b: "toBase58 stub_web3 = map (\<lambda>b. of_nat (unat b))" by (simp add: stub_simps)
  show ?thesis
    unfolding derivation_follows_reference_schema [THEN conjunct1]
    using k resolve_stub_nonce_1 by (simp add: b)
qed

text \<open>
  The claim as stated takes the nonce from the roots. With the nonce 2 the resolver of
  the specification derives the cap address from the eight bytes \<open>2 0 0 0 0 0 0 0\<close>; the
  code still uses \<open>1 0 0 0 0 0 0 0\<close>, so the two cap addresses differ.
\<close>

theorem nonce_root_counterexample:
  "map_of (projr (spec_resolve stub_web3 \<lparr>router = [82], slab = [83]\<rparr>
       \<lparr>user = [85], mint = [77], market_name = js ''BTC-PERP'', nonce = 2\<rparr> []
       spec_reference_schema)) ''cap'' =
     Some [99, 97, 112, 85, 115, 108, 97, 98, 66, 84, 67, 45, 80, 69, 82, 80, 83, 77,
           2, 0, 0, 0, 0, 0, 0, 0, 82] \<and>
   capPda (projr (deriveAllPDAs stub_web3 args0)) =
     [99, 97, 112, 85, 115, 108, 97, 98, 66, 84, 67, 45, 80, 69, 82, 80, 83, 77,
      1, 0, 0, 0, 0, 0, 0, 0, 82] \<and>
   PublicKey_new stub_web3 (routerPk args0) = Inr [82] \<and>
   PublicKey_new stub_web3 (slabPk args0) = Inr [83] \<and>
   PublicKey_new stub_web3 (userPk args0) = Inr [85] \<and>
   PublicKey_new stub_web3 (mintPk args0) = Inr [77] \<and>
   market args0 = js ''BTC-PERP'' \<and>
   map_option (toBase58 stub_web3)
     (map_of (projr (spec_resolve stub_web3 \<lparr>router = [82], slab = [83]\<rparr>
        \<lparr>user = [85], mint = [77], market_name = js ''BTC-PERP'', nonce = 2\<rparr> []
        spec_reference_schema)) ''cap'')
     \<noteq> Some (capPda (projr (deriveAllPDAs stub_web3 args0)))"
  by (simp add: spec_reference_schema_def program_of_def deriveAllPDAs_def args0_def run_simps
      u64LE_def upt_rec)

subsection \<open>C4: seven pairwise different addresses, one slab state address\<close>











subsection \<open>C5: the dry run is gated on the presence classification\<close>

lemma observed_executable_iff:
  "observed_executable connection pid \<longleftrightarrow>
     (\<exists>i. getAccountInfo connection pid = Inr (Some i) \<and> executable i)"
  by (auto simp add: observed_executable_def split: sum.splits option.splits)

lemma await_ext:
  assumes "\<exists>cs. calls (snd (m s)) = calls s @ cs \<and> list_all P cs"
    and "\<And>x. fst (m s) = Inr x \<Longrightarrow>
           \<exists>cs. calls (snd (k x (snd (m s)))) = calls (snd (m s)) @ cs \<and> list_all P cs"
  shows "\<exists>cs. calls (snd (await m k s)) = calls s @ cs \<and> list_all P cs"
proof (cases "fst (m s)")
  case (Inl e)
  with assms(1) show ?thesis by (simp add: await_apply)
next
  case (Inr x)
  from assms(1) obtain cs1 where 1: "calls (snd (m s)) = calls s @ cs1" "list_all P cs1"
    by blast
  from assms(2) [OF Inr] obtain cs2 where
    2: "calls (snd (k x (snd (m s)))) = calls (snd (m s)) @ cs2" "list_all P cs2"
    by blast
  from 1 2 Inr have "calls (snd (await m k s)) = calls s @ (cs1 @ cs2) \<and> list_all P (cs1 @ cs2)"
    by (simp add: await_apply)
  then show ?thesis by blast
qed

lemma console_log_ext:
  "\<exists>cs. calls (snd (console_log l s)) = calls s @ cs \<and> list_all P cs"
  by (simp add: console_log_apply)

lemma sync_ext: "\<exists>cs. calls (snd (sync r s)) = calls s @ cs \<and> list_all P cs"
  by (simp add: sync_apply)

lemma version_ext:
  "\<exists>cs. calls (snd (try_catch (rpc GetVersion r) h0 s)) = calls s @ cs \<and>
        list_all (targets_executable connection) cs"
  if "\<And>e s. h0 e s = (Inr d, s)"
  using that
  by (cases r) (simp_all add: try_catch_def rpc_apply targets_executable_def)

lemma main_derive_calls: "calls (snd (main_derive lib cfg usr mnt s)) = calls s"
  by (simp add: main_derive_def Let_def await_sync await_console_log done_with_apply u64LE_1
      split: sum.splits prod.splits)

lemma getPresence_apply:
  "getPresence connection pid s =
     (case getAccountInfo connection pid of
        Inl e \<Rightarrow> Inl e
      | Inr None \<Rightarrow> Inr ''not found''
      | Inr (Some i) \<Rightarrow> Inr (if executable i then ''executable program''
                              else ''non-executable account''),
      s\<lparr>calls := calls s @ [GetAccountInfo pid]\<rparr>)"
  by (simp add: getPresence_def await_rpc done_with_apply split: sum.splits option.splits)

lemma presences_ext:
  "\<exists>cs. calls (snd (Promise_all
           [getPresence connection a, getPresence connection b, getPresence connection c,
            getPresence connection d] s)) = calls s @ cs \<and>
        list_all (targets_executable first) cs"
  by (simp add: getPresence_apply done_with_apply targets_executable_def
      split: sum.splits option.splits prod.splits)

lemma presences_result:
  "fst (Promise_all
         [getPresence connection a, getPresence connection b, getPresence connection c,
          getPresence connection d] s) = Inr ps \<Longrightarrow>
     (ps ! 2 = ''executable program'' \<longrightarrow> observed_executable connection c) \<and>
     (ps ! 3 = ''executable program'' \<longrightarrow> observed_executable connection d)"
  by (auto simp add: getPresence_apply done_with_apply observed_executable_def
      split: sum.splits option.splits prod.splits if_splits)

lemma main_fetch_ext:
  "\<exists>cs. calls (snd (main_fetch lib connection targets s)) = calls s @ cs \<and>
        list_all (targets_executable first) cs"
proof (induction targets arbitrary: s)
  case Nil
  show ?case by (simp add: main_fetch_def done_with_apply)
next
  case (Cons x targets)
  obtain l pk where x: "x = (l, pk)" by (cases x)
  have body: "\<exists>cs. calls (snd ((await (fetchMeta lib connection pk) (\<lambda>meta.
         if \<not> exists meta
         then console_log [Str l, JStr (toBase58 lib pk), Str ''not found'']
         else console_log [Str l, JStr (toBase58 lib pk),
                Str ''owner='', JStr (m_owner (the meta)),
                Str ''exec='', Flag (m_executable (the meta)),
                Str ''data='', Num (m_dataLen (the meta)),
                Str ''lamports='', Num (m_lamports (the meta))])) s)) = calls s @ cs \<and>
        list_all (targets_executable first) cs"
    by (simp add: fetchMeta_def await_apply rpc_apply done_with_apply console_log_apply
        targets_executable_def split: sum.splits option.splits)
  show ?case
    unfolding main_fetch_def x for_each.simps prod.case
  proof (rule await_ext)
    show "\<exists>cs. calls (snd ((await (fetchMeta lib connection pk) (\<lambda>meta.
         if \<not> exists meta
         then console_log [Str l, JStr (toBase58 lib pk), Str ''not found'']
         else console_log [Str l, JStr (toBase58 lib pk),
                Str ''owner='', JStr (m_owner (the meta)),
                Str ''exec='', Flag (m_executable (the meta)),
                Str ''data='', Num (m_dataLen (the meta)),
                Str ''lamports='', Num (m_lamports (the meta))])) s)) = calls s @ cs \<and>
        list_all (targets_executable first) cs"
      by (rule body)
  next
    fix u :: unit
    let ?s' = "snd ((await (fetchMeta lib connection pk) (\<lambda>meta.
         if \<not> exists meta
         then console_log [Str l, JStr (toBase58 lib pk), Str ''not found'']
         else console_log [Str l, JStr (toBase58 lib pk),
                Str ''owner='', JStr (m_owner (the meta)),
                Str ''exec='', Flag (m_executable (the meta)),
                Str ''data='', Num (m_dataLen (the meta)),
                Str ''lamports='', Num (m_lamports (the meta))])) s)"
    from Cons.IH [unfolded main_fetch_def, of ?s']
    show "\<exists>cs. calls (snd (for_each targets (\<lambda>(label, pk).
             await (fetchMeta lib connection pk) (\<lambda>meta.
               if \<not> exists meta
               then console_log [Str label, JStr (toBase58 lib pk), Str ''not found'']
               else console_log [Str label, JStr (toBase58 lib pk),
                      Str ''owner='', JStr (m_owner (the meta)),
                      Str ''exec='', Flag (m_executable (the meta)),
                      Str ''data='', Num (m_dataLen (the meta)),
                      Str ''lamports='', Num (m_lamports (the meta))])) ?s')) = calls ?s' @ cs \<and>
            list_all (targets_executable first) cs"
      .
  qed
qed

lemma simulateNoop_ext:
  "observed_executable first pid \<Longrightarrow>
     list_all (targets_executable first) (calls (snd (simulateNoop connection payer pid io0)))"
  by (simp add: simulateNoop_eq Let_def io0_def targets_executable_def split: sum.splits)

lemma main_simulate_ext:
  assumes "rp = ''executable program'' \<longrightarrow> observed_executable first (ROUTER_ID cfg)"
    and "sp = ''executable program'' \<longrightarrow> observed_executable first (SLAB_ID cfg)"
  shows "\<exists>cs. calls (snd (main_simulate connection payer cfg rp sp s)) = calls s @ cs \<and>
           list_all (targets_executable first) cs"
  using assms by (simp add: main_simulate_calls simulateNoop_ext)

lemma main_body_ext:
  "\<exists>cs. calls (snd (main_body lib ledger cfg opts env payer s)) = calls s @ cs \<and>
        list_all (targets_executable (ledger 1)) cs"
  unfolding main_body_def Let_def
  by (intro await_ext console_log_ext sync_ext version_ext presences_ext main_fetch_ext
        main_simulate_ext)
     (auto simp add: main_derive_calls done_with_apply simp del: Promise_all.simps
        dest: presences_result)

lemma main_ext:
  "\<exists>cs. calls (snd (main lib ledger cfg opts env payer s)) = calls s @ cs \<and>
        list_all (targets_executable (ledger 1)) cs"
  using main_body_ext [of lib ledger cfg opts env payer s]
  by (cases "main_body lib ledger cfg opts env payer s";
      cases "fst (main_body lib ledger cfg opts env payer s)")
     (auto simp add: main_def)

lemmas main_run_simps =
  main_def main_body_def main_derive_def main_fetch_def main_simulate_def
  simulateNoop_def getPresence_def fetchMeta_def main_targets_def main_USER_def main_MINT_def
  await_def console_log_def sync_def rpc_def done_with_def try_catch_def
  router_closed_after_step_1_def empty_ledger_def cfg0_def opts0_def env0_def payer0_def
  acct0_def io0_def stub_simps js_simps utf8_unit_def toBuffer_def u64LE_1 bind_err_def
  Let_def or_default_def js_or_def truthy_def exists_def

lemma router_closed_run:
  "main stub_web3 router_closed_after_step_1 cfg0 opts0 env0 payer0 io0 =
   (0, \<lparr>calls =
           [GetVersion, GetAccountInfo [49], GetAccountInfo [77],
            GetAccountInfo [82], GetAccountInfo [83], GetAccountInfo [49],
            GetAccountInfo [77], GetAccountInfo [82], GetAccountInfo [83],
            GetAccountInfo [118, 97, 117, 108, 116, 85, 82],
            GetAccountInfo
             [101, 115, 99, 114, 111, 119, 85, 115, 108, 97, 98, 66, 84, 67,
              45, 80, 69, 82, 80, 83, 85, 82],
            GetAccountInfo
             [99, 97, 112, 85, 115, 108, 97, 98, 66, 84, 67, 45, 80, 69, 82,
              80, 83, 85, 1, 0, 0, 0, 0, 0, 0, 0, 82],
            GetAccountInfo
             [112, 111, 114, 116, 102, 111, 108, 105, 111, 85, 82],
            GetAccountInfo [114, 101, 103, 105, 115, 116, 114, 121, 82],
            GetAccountInfo
             [115, 108, 97, 98, 66, 84, 67, 45, 80, 69, 82, 80, 83],
            GetAccountInfo
             [97, 117, 116, 104, 111, 114, 105, 116, 121, 115, 108, 97, 98, 66,
              84, 67, 45, 80, 69, 82, 80, 83, 83],
            GetLatestBlockhash,
            SimulateTransaction
             \<lparr>instructions =
                [\<lparr>keys =
                    [\<lparr>pubkey = [85], isSigner = True, isWritable = False\<rparr>],
                    programId = [82], ix_data = []\<rparr>],
                feePayer = Some [85], recentBlockhash = Some [104],
                signatures = [[85]]\<rparr>
             [payer0]],
           console =
             [[Str ''RPC_URL      :'',
               JStr
                [104, 116, 116, 112, 58, 47, 47, 49, 50, 55, 46, 48, 46, 48,
                 46, 49, 58, 56, 56, 57, 57]],
              [Str ''RPC version  :'', JStr [118]],
              [Str ''PAYER pubkey :'', JStr [85]],
              [Str ''USER  pubkey :'', JStr [85]],
              [Str ''MINT  pubkey :'', JStr [85]],
              [Str ''MARKET       :'', JStr [66, 84, 67, 45, 80, 69, 82, 80]],
              [Str ''SIMULATE     :'', Str ''yes''], [Str []],
              [Str ''Checking program presence...''],
              [Str ''System:'', JStr [49], Str ''not found''],
              [Str ''Memo  :'', JStr [77], Str ''not found''],
              [Str ''Router:'', JStr [82], Str ''executable program''],
              [Str ''Slab  :'', JStr [83], Str ''not found''], [Str []],
              [Str ''Deriving Router PDAs...''],
              [Str ''Vault     PDA:'', JStr [118, 97, 117, 108, 116, 85, 82]],
              [Str ''Escrow    PDA:'',
               JStr
                [101, 115, 99, 114, 111, 119, 85, 115, 108, 97, 98, 66, 84, 67,
                 45, 80, 69, 82, 80, 83, 85, 82]],
              [Str ''Cap       PDA:'',
               JStr
                [99, 97, 112, 85, 115, 108, 97, 98, 66, 84, 67, 45, 80, 69, 82,
                 80, 83, 85, 1, 0, 0, 0, 0, 0, 0, 0, 82],
               Str ''(nonce=1)''],
              [Str ''Portfolio PDA:'',
               JStr [112, 111, 114, 116, 102, 111, 108, 105, 111, 85, 82]],
              [Str ''Registry  PDA:'',
               JStr [114, 101, 103, 105, 115, 116, 114, 121, 82]],
              [Str []], [Str ''Deriving Slab PDAs...''],
              [Str ''Slab State PDA:'',
               JStr [115, 108, 97, 98, 66, 84, 67, 45, 80, 69, 82, 80, 83]],
              [Str ''Authority  PDA:'',
               JStr
                [97, 117, 116, 104, 111, 114, 105, 116, 121, 115, 108, 97, 98,
                 66, 84, 67, 45, 80, 69, 82, 80, 83, 83]],
              [Str []],
              [Str ''Fetching account metas (exists / size / owner)...''],
              [Str ''System'', JStr [49], Str ''not found''],
              [Str ''Memo'', JStr [77], Str ''not found''],
              [Str ''Router'', JStr [82], Str ''not found''],
              [Str ''Slab'', JStr [83], Str ''not found''],
              [Str ''Vault PDA'', JStr [118, 97, 117, 108, 116, 85, 82],
               Str ''not found''],
              [Str ''Escrow PDA'',
               JStr
                [101, 115, 99, 114, 111, 119, 85, 115, 108, 97, 98, 66, 84, 67,
                 45, 80, 69, 82, 80, 83, 85, 82],
               Str ''not found''],
              [Str ''Cap PDA'',
               JStr
                [99, 97, 112, 85, 115, 108, 97, 98, 66, 84, 67, 45, 80, 69, 82,
                 80, 83, 85, 1, 0, 0, 0, 0, 0, 0, 0, 82],
               Str ''not found''],
              [Str ''Portfolio PDA'',
               JStr [112, 111, 114, 116, 102, 111, 108, 105, 111, 85, 82],
               Str ''not found''],
              [Str ''Registry PDA'',
               JStr [114, 101, 103, 105, 115, 116, 114, 121, 82],
               Str ''not found''],
              [Str ''Slab State PDA'',
               JStr [115, 108, 97, 98, 66, 84, 67, 45, 80, 69, 82, 80, 83],
               Str ''not found''],
              [Str ''Authority PDA'',
               JStr
                [97, 117, 116, 104, 111, 114, 105, 116, 121, 115, 108, 97, 98,
                 66, 84, 67, 45, 80, 69, 82, 80, 83, 83],
               Str ''not found''],
              [Str []], [Str ''Simulating no-op invoke to Router''],
              [Str ''Router logs:'', Lines [[111, 107]]],
              [Str ''Router err :'', Nullable None], [Str []],
              [Str ''Skipping Slab simulate (account not found or not executable).''],
              [Str ''Done.'']]\<rparr>)"
  by (simp add: main_run_simps)

text \<open>
  The claim as it is stated fails when the ledger changes during the run. The main
  function reads the router twice: \<open>getPresence\<close> in step 1 and \<open>fetchMeta\<close> in step 3.
  On a ledger where the router is an executable account in step 1 and is gone in step
  3, the most recent observation of the router before the simulation step is
  \<open>not found\<close>, which step 3 prints, and step 4 still sends the simulation request for
  the router: the condition of step 4 reads the string that step 1 returned.
\<close>

theorem stale_presence_counterexample:
  "SIMULATE cfg0 \<and> ROUTER_ID cfg0 = [82] \<and>
   fst (getPresence (router_closed_after_step_1 1) [82] io0) = Inr ''executable program'' \<and>
   fst (fetchMeta stub_web3 (router_closed_after_step_1 3) [82] io0) = Inr None \<and>
   getAccountInfo (router_closed_after_step_1 3) [82] = Inr None \<and>
   getAccountInfo (router_closed_after_step_1 4) [82] = Inr None \<and>
   main stub_web3 router_closed_after_step_1 cfg0 opts0 env0 payer0 io0 =
   (0, \<lparr>calls =
           [GetVersion, GetAccountInfo [49], GetAccountInfo [77],
            GetAccountInfo [82], GetAccountInfo [83], GetAccountInfo [49],
            GetAccountInfo [77], GetAccountInfo [82], GetAccountInfo [83],
            GetAccountInfo [118, 97, 117, 108, 116, 85, 82],
            GetAccountInfo
             [101, 115, 99, 114, 111, 119, 85, 115, 108, 97, 98, 66, 84, 67,
              45, 80, 69, 82, 80, 83, 85, 82],
            GetAccountInfo
             [99, 97, 112, 85, 115, 108, 97, 98, 66, 84, 67, 45, 80, 69, 82,
              80, 83, 85, 1, 0, 0, 0, 0, 0, 0, 0, 82],
            GetAccountInfo
             [112, 111, 114, 116, 102, 111, 108, 105, 111, 85, 82],
            GetAccountInfo [114, 101, 103, 105, 115, 116, 114, 121, 82],
            GetAccountInfo
             [115, 108, 97, 98, 66, 84, 67, 45, 80, 69, 82, 80, 83],
            GetAccountInfo
             [97, 117, 116, 104, 111, 114, 105, 116, 121, 115, 108, 97, 98, 66,
              84, 67, 45, 80, 69, 82, 80, 83, 83],
            GetLatestBlockhash,
            SimulateTransaction
             \<lparr>instructions =
                [\<lparr>keys =
                    [\<lparr>pubkey = [85], isSigner = True, isWritable = False\<rparr>],
                    programId = [82], ix_data = []\<rparr>],
                feePayer = Some [85], recentBlockhash = Some [104],
                signatures = [[85]]\<rparr>
             [payer0]],
           console =
             [[Str ''RPC_URL      :'',
               JStr
                [104, 116, 116, 112, 58, 47, 47, 49, 50, 55, 46, 48, 46, 48,
                 46, 49, 58, 56, 56, 57, 57]],
              [Str ''RPC version  :'', JStr [118]],
              [Str ''PAYER pubkey :'', JStr [85]],
              [Str ''USER  pubkey :'', JStr [85]],
              [Str ''MINT  pubkey :'', JStr [85]],
              [Str ''MARKET       :'', JStr [66, 84, 67, 45, 80, 69, 82, 80]],
              [Str ''SIMULATE     :'', Str ''yes''], [Str []],
              [Str ''Checking program presence...''],
              [Str ''System:'', JStr [49], Str ''not found''],
              [Str ''Memo  :'', JStr [77], Str ''not found''],
              [Str ''Router:'', JStr [82], Str ''executable program''],
              [Str ''Slab  :'', JStr [83], Str ''not found''], [Str []],
              [Str ''Deriving Router PDAs...''],
              [Str ''Vault     PDA:'', JStr [118, 97, 117, 108, 116, 85, 82]],
              [Str ''Escrow    PDA:'',
               JStr
                [101, 115, 99, 114, 111, 119, 85, 115, 108, 97, 98, 66, 84, 67,
                 45, 80, 69, 82, 80, 83, 85, 82]],
              [Str ''Cap       PDA:'',
               JStr
                [99, 97, 112, 85, 115, 108, 97, 98, 66, 84, 67, 45, 80, 69, 82,
                 80, 83, 85, 1, 0, 0, 0, 0, 0, 0, 0, 82],
               Str ''(nonce=1)''],
              [Str ''Portfolio PDA:'',
               JStr [112, 111, 114, 116, 102, 111, 108, 105, 111, 85, 82]],
              [Str ''Registry  PDA:'',
               JStr [114, 101, 103, 105, 115, 116, 114, 121, 82]],
              [Str []], [Str ''Deriving Slab PDAs...''],
              [Str ''Slab State PDA:'',
               JStr [115, 108, 97, 98, 66, 84, 67, 45, 80, 69, 82, 80, 83]],
              [Str ''Authority  PDA:'',
               JStr
                [97, 117, 116, 104, 111, 114, 105, 116, 121, 115, 108, 97, 98,
                 66, 84, 67, 45, 80, 69, 82, 80, 83, 83]],
              [Str []],
              [Str ''Fetching account metas (exists / size / owner)...''],
              [Str ''System'', JStr [49], Str ''not found''],
              [Str ''Memo'', JStr [77], Str ''not found''],
              [Str ''Router'', JStr [82], Str ''not found''],
              [Str ''Slab'', JStr [83], Str ''not found''],
              [Str ''Vault PDA'', JStr [118, 97, 117, 108, 116, 85, 82],
               Str ''not found''],
              [Str ''Escrow PDA'',
               JStr
                [101, 115, 99, 114, 111, 119, 85, 115, 108, 97, 98, 66, 84, 67,
                 45, 80, 69, 82, 80, 83, 85, 82],
               Str ''not found''],
              [Str ''Cap PDA'',
               JStr
                [99, 97, 112, 85, 115, 108, 97, 98, 66, 84, 67, 45, 80, 69, 82,
                 80, 83, 85, 1, 0, 0, 0, 0, 0, 0, 0, 82],
               Str ''not found''],
              [Str ''Portfolio PDA'',
               JStr [112, 111, 114, 116, 102, 111, 108, 105, 111, 85, 82],
               Str ''not found''],
              [Str ''Registry PDA'',
               JStr [114, 101, 103, 105, 115, 116, 114, 121, 82],
               Str ''not found''],
              [Str ''Slab State PDA'',
               JStr [115, 108, 97, 98, 66, 84, 67, 45, 80, 69, 82, 80, 83],
               Str ''not found''],
              [Str ''Authority PDA'',
               JStr
                [97, 117, 116, 104, 111, 114, 105, 116, 121, 115, 108, 97, 98,
                 66, 84, 67, 45, 80, 69, 82, 80, 83, 83],
               Str ''not found''],
              [Str []], [Str ''Simulating no-op invoke to Router''],
              [Str ''Router logs:'', Lines [[111, 107]]],
              [Str ''Router err :'', Nullable None], [Str []],
              [Str ''Skipping Slab simulate (account not found or not executable).''],
              [Str ''Done.'']]\<rparr>) \<and>
   \<not> list_all (targets_executable (router_closed_after_step_1 3))
       (calls (snd (main stub_web3 router_closed_after_step_1 cfg0 opts0 env0 payer0 io0)))"
  unfolding router_closed_run
  by (simp add: targets_executable_def observed_executable_def getPresence_def fetchMeta_def
      router_closed_after_step_1_def empty_ledger_def cfg0_def acct0_def io0_def
      await_def rpc_def done_with_def)

text \<open>
  C5, amended. The simulation step is gated on the classifications \<open>getPresence\<close> returned
  in step 1 for the router and the slab, and \<open>getPresence\<close> answers \<open>executable program\<close>
  exactly when the connection then holds an executable account at the address; the
  later read of the same accounts in step 3 is not consulted. The step never throws.
  The requests it sends are those of \<open>simulateNoop\<close> for the router when simulation is
  enabled and the router was classified executable, followed by those for the slab
  under the same condition, and nothing else. With simulation enabled, a program that
  was not classified executable (not found, or not executable) gets a line that says
  its simulation is skipped. Over a whole run of the main function, whatever its inputs,
  however the ledger changes between the steps and wherever the run stops, every
  simulation request is addressed at a program that the connection reported as an
  executable account in step 1, and no transaction is submitted.
\<close>

theorem dry_run_gated_on_presence:
  "fst (main_simulate connection payer cfg rp sp s) = Inr () \<and>
   calls (snd (main_simulate connection payer cfg rp sp s)) =
     calls s @
     (if SIMULATE cfg \<and> rp = ''executable program''
      then calls (snd (simulateNoop connection payer (ROUTER_ID cfg) io0)) else []) @
     (if SIMULATE cfg \<and> sp = ''executable program''
      then calls (snd (simulateNoop connection payer (SLAB_ID cfg) io0)) else []) \<and>
   (SIMULATE cfg \<and> rp \<noteq> ''executable program'' \<longrightarrow>
      [Str ''Skipping Router simulate (account not found or not executable).'']
        \<in> set (drop (length (console s))
                 (console (snd (main_simulate connection payer cfg rp sp s))))) \<and>
   (SIMULATE cfg \<and> sp \<noteq> ''executable program'' \<longrightarrow>
      [Str ''Skipping Slab simulate (account not found or not executable).'']
        \<in> set (drop (length (console s))
                 (console (snd (main_simulate connection payer cfg rp sp s))))) \<and>
   (fst (getPresence connection pid s) = Inr ''executable program'' \<longleftrightarrow>
      (\<exists>i. getAccountInfo connection pid = Inr (Some i) \<and> executable i)) \<and>
   (observed_executable connection pid \<longleftrightarrow>
      (\<exists>i. getAccountInfo connection pid = Inr (Some i) \<and> executable i)) \<and>
   (\<exists>cs. calls (snd (main lib ledger cfg opts env payer s)) = calls s @ cs \<and>
         list_all (targets_executable (ledger 1)) cs)"
  using main_ext [of lib ledger cfg opts env payer s]
  by (simp add: main_simulate_fst main_simulate_calls main_simulate_skip_router
      main_simulate_skip_slab getPresence_executable_iff observed_executable_iff)

text \<open>
  The theorem on a ledger that holds the slab as its one executable account, and on the
  run over the changing ledger above: its one simulation request is addressed at the
  router, which step 1 found executable.
\<close>

theorem dry_run_gated_on_presence_witness:
  "SIMULATE cfg0 \<and>
   fst (getPresence one_account (ROUTER_ID cfg0) io0) = Inr ''not found'' \<and>
   fst (getPresence one_account (SLAB_ID cfg0) io0) = Inr ''executable program'' \<and>
   main_simulate one_account payer0 cfg0 ''not found'' ''executable program'' io0 =
     (Inr (),
      \<lparr>calls =
         [GetLatestBlockhash,
          SimulateTransaction
            \<lparr>instructions =
               [\<lparr>keys = [\<lparr>pubkey = [85], isSigner = True, isWritable = False\<rparr>],
                 programId = [83], ix_data = []\<rparr>],
             feePayer = Some [85],
             recentBlockhash = Some (js ''h''),
             signatures = [[85]]\<rparr>
            [payer0]],
       console =
         [[Str ''Skipping Router simulate (account not found or not executable).''],
          [Str ''Simulating no-op invoke to Slab''],
          [Str ''Slab logs  :'', Lines [js ''ok'']],
          [Str ''Slab err   :'', Nullable None],
          [Str []]]\<rparr>) \<and>
   main_simulate one_account payer0 cfg0 ''not found'' ''non-executable account'' io0 =
     (Inr (),
      \<lparr>calls = [],
       console =
         [[Str ''Skipping Router simulate (account not found or not executable).''],
          [Str ''Skipping Slab simulate (account not found or not executable).'']]\<rparr>) \<and>
   list_all (targets_executable (router_closed_after_step_1 1))
     (calls (snd (main stub_web3 router_closed_after_step_1 cfg0 opts0 env0 payer0 io0)))"
proof -
  note t = dry_run_gated_on_presence
             [of one_account payer0 cfg0 "''not found''" "''executable program''" io0 "[83]"
                 stub_web3 router_closed_after_step_1 opts0 env0]
  from t have "\<exists>cs. calls (snd (main stub_web3 router_closed_after_step_1 cfg0 opts0 env0
                                  payer0 io0)) = calls io0 @ cs \<and>
                    list_all (targets_executable (router_closed_after_step_1 1)) cs"
    by blast
  then have m: "list_all (targets_executable (router_closed_after_step_1 1))
     (calls (snd (main stub_web3 router_closed_after_step_1 cfg0 opts0 env0 payer0 io0)))"
    by (auto simp add: io0_def)
  have "SIMULATE cfg0 \<and>
   fst (getPresence one_account (ROUTER_ID cfg0) io0) = Inr ''not found'' \<and>
   fst (getPresence one_account (SLAB_ID cfg0) io0) = Inr ''executable program'' \<and>
   main_simulate one_account payer0 cfg0 ''not found'' ''executable program'' io0 =
     (Inr (),
      \<lparr>calls =
         [GetLatestBlockhash,
          SimulateTransaction
            \<lparr>instructions =
               [\<lparr>keys = [\<lparr>pubkey = [85], isSigner = True, isWritable = False\<rparr>],
                 programId = [83], ix_data = []\<rparr>],
             feePayer = Some [85],
             recentBlockhash = Some (js ''h''),
             signatures = [[85]]\<rparr>
            [payer0]],
       console =
         [[Str ''Skipping Router simulate (account not found or not executable).''],
          [Str ''Simulating no-op invoke to Slab''],
          [Str ''Slab logs  :'', Lines [js ''ok'']],
          [Str ''Slab err   :'', Nullable None],
          [Str []]]\<rparr>) \<and>
   main_simulate one_account payer0 cfg0 ''not found'' ''non-executable account'' io0 =
     (Inr (),
      \<lparr>calls = [],
       console =
         [[Str ''Skipping Router simulate (account not found or not executable).''],
          [Str ''Skipping Slab simulate (account not found or not executable).'']]\<rparr>)"
    by (simp add: main_simulate_def simulateNoop_def getPresence_def one_account_def
        empty_ledger_def cfg0_def payer0_def acct0_def run_simps)
  with m show ?thesis by blast
qed

subsection \<open>C6: a failed read ends the whole batch\<close>









subsection \<open>C7: an absent account is a result, not an error\<close>

text \<open>
  C7. When the transport answers that there is no account at an address, \<open>fetchMeta\<close>
  returns \<open>{ exists: false }\<close> and \<open>getPresence\<close> returns \<open>not found\<close>, as values and
  after exactly one read. When there is an account, the observation carries its balance,
  its executable flag, its owner in base58 and the length of its data (0 when the data
  are missing). The same holds for the two functions of the dashboard, which first
  decode the address.
\<close>

theorem probe_not_found_is_a_result:
  "(getAccountInfo connection pk = Inr None \<longrightarrow>
      fetchMeta lib connection pk s = (Inr None, s\<lparr>calls := calls s @ [GetAccountInfo pk]\<rparr>) \<and>
      \<not> exists (None :: meta) \<and>
      getPresence connection pk s = (Inr ''not found'', s\<lparr>calls := calls s @ [GetAccountInfo pk]\<rparr>)) \<and>
   (getAccountInfo connection pk = Inr (Some a) \<longrightarrow>
      fetchMeta lib connection pk s =
        (Inr (Some \<lparr>m_lamports = lamports a, m_executable = executable a,
                    m_owner = toBase58 lib (owner a),
                    m_dataLen = (case data a of None \<Rightarrow> 0 | Some d \<Rightarrow> length d)\<rparr>),
         s\<lparr>calls := calls s @ [GetAccountInfo pk]\<rparr>) \<and>
      getPresence connection pk s =
        (Inr (if executable a then ''executable program'' else ''non-executable account''),
         s\<lparr>calls := calls s @ [GetAccountInfo pk]\<rparr>)) \<and>
   (PublicKey_new lib b58 = Inr pk \<and> getAccountInfo connection pk = Inr None \<longrightarrow>
      fst (dashboard_fetchMeta lib connection b58 s) = Inr None \<and>
      fst (dashboard_getPresence lib connection b58 s) =
        Inr \<lparr>status = ''not found'', p_lamports = None, p_owner = None, p_dataLen = None\<rparr>) \<and>
   (PublicKey_new lib b58 = Inr pk \<and> getAccountInfo connection pk = Inr (Some a) \<longrightarrow>
      fst (dashboard_fetchMeta lib connection b58 s) =
        Inr (Some \<lparr>m_lamports = lamports a, m_executable = executable a,
                   m_owner = toBase58 lib (owner a),
                   m_dataLen = (case data a of None \<Rightarrow> 0 | Some d \<Rightarrow> length d),
                   base58 = b58\<rparr>) \<and>
      fst (dashboard_getPresence lib connection b58 s) =
        Inr \<lparr>status = (if executable a then ''executable program'' else ''non-executable account''),
             p_lamports = Some (lamports a),
             p_owner = Some (toBase58 lib (owner a)),
             p_dataLen = Some (case data a of None \<Rightarrow> 0 | Some d \<Rightarrow> length d)\<rparr>)"
  by (simp add: fetchMeta_def getPresence_def dashboard_fetchMeta_def dashboard_getPresence_def
      await_rpc await_sync done_with_def exists_def)

theorem probe_not_found_is_a_result_witness:
  "getAccountInfo one_account [82] = Inr None \<and>
   fetchMeta stub_web3 one_account [82] io0 =
     (Inr None, \<lparr>calls = [GetAccountInfo [82]], console = []\<rparr>) \<and>
   getAccountInfo one_account [83] = Inr (Some acct0) \<and>
   fetchMeta stub_web3 one_account [83] io0 =
     (Inr (Some \<lparr>m_lamports = 5, m_executable = True, m_owner = [7], m_dataLen = 3\<rparr>),
      \<lparr>calls = [GetAccountInfo [83]], console = []\<rparr>) \<and>
   fst (dashboard_fetchMeta stub_web3 one_account (js ''R'') io0) = Inr None"
  using probe_not_found_is_a_result [of one_account "[82]" stub_web3 io0 acct0 "js ''R''"]
        probe_not_found_is_a_result [of one_account "[83]" stub_web3 io0 acct0 "js ''S''"]
  by (simp add: one_account_def empty_ledger_def acct0_def run_simps)

subsection \<open>C8: the dry run builds a no-op instruction and only simulates it\<close>

text \<open>
  C8. \<open>simulateNoop\<close> first fetches the latest blockhash; if that fails it sends nothing
  else. Otherwise it sends exactly one more request, to the simulation endpoint, with the
  payer as signer and a transaction that has one instruction (no data, addressed at the
  program id, its only account the payer, signer and not writable), the payer as fee
  payer, the blockhash just fetched and the payer's signature; the answer of the
  simulation is the result. It sends no request to the endpoint that submits a
  transaction.
\<close>

theorem simulateNoop_only_simulates:
  "simulateNoop connection payer pid s =
     (case getLatestBlockhash connection of
        Inl e \<Rightarrow> (Inl e, s\<lparr>calls := calls s @ [GetLatestBlockhash]\<rparr>)
      | Inr blockhash \<Rightarrow>
          (let tx = \<lparr>instructions =
                       [\<lparr>keys = [\<lparr>pubkey = publicKey payer, isSigner = True, isWritable = False\<rparr>],
                         programId = pid, ix_data = []\<rparr>],
                     feePayer = Some (publicKey payer),
                     recentBlockhash = Some blockhash,
                     signatures = [publicKey payer]\<rparr>
           in (simulateTransaction connection tx [payer],
               s\<lparr>calls := calls s @ [GetLatestBlockhash, SimulateTransaction tx [payer]]\<rparr>))) \<and>
   (\<forall>tx. SendTransaction tx \<in> set (calls (snd (simulateNoop connection payer pid s))) \<longrightarrow>
         SendTransaction tx \<in> set (calls s))"
  by (simp add: simulateNoop_eq Let_def split: sum.splits)

theorem simulateNoop_only_simulates_witness:
  "simulateNoop empty_ledger payer0 [83] io0 =
     (Inr \<lparr>logs = Some [js ''ok''], err = None\<rparr>,
      \<lparr>calls =
         [GetLatestBlockhash,
          SimulateTransaction
            \<lparr>instructions =
               [\<lparr>keys = [\<lparr>pubkey = [85], isSigner = True, isWritable = False\<rparr>],
                 programId = [83], ix_data = []\<rparr>],
             feePayer = Some [85],
             recentBlockhash = Some (js ''h''),
             signatures = [[85]]\<rparr>
            [payer0]],
       console = []\<rparr>)"
  using simulateNoop_only_simulates [of empty_ledger payer0 "[83]" io0]
  by (simp add: empty_ledger_def payer0_def io0_def Let_def)

subsection \<open>C9: the user and mint roots default to the loaded identity\<close>

text \<open>
  C9, as the code has it. A root is absent when neither the command line option nor the
  environment variable gives a non-empty string. In \<open>interact-percolator.js\<close> an absent
  user root is the payer's public key, and an absent mint root is the user root (the
  usage text says \<open>default USER\<close>); so when both are absent, both are the payer's public
  key. The dashboard takes no roots from its request: a successful response always
  reports the payer's public key as user and as mint.
\<close>

theorem roots_default_to_identity:
  "(\<not> truthy (opt_user opts) \<and> \<not> truthy (env_USER env) \<longrightarrow>
      main_USER lib opts env payer = Inr (publicKey payer)) \<and>
   (\<not> truthy (opt_mint opts) \<and> \<not> truthy (env_MINT env) \<longrightarrow>
      main_MINT lib opts env usr = Inr usr) \<and>
   (\<not> truthy (opt_user opts) \<and> \<not> truthy (env_USER env) \<and>
    \<not> truthy (opt_mint opts) \<and> \<not> truthy (env_MINT env) \<longrightarrow>
      bind_err (main_USER lib opts env payer) (main_MINT lib opts env) = Inr (publicKey payer)) \<and>
   (fst (api_status lib net env payer q s) = Json200 body \<longrightarrow>
      res_user body = toBase58 lib (publicKey payer) \<and>
      res_mint body = toBase58 lib (publicKey payer))"
proof (intro conjI impI)
  assume "fst (api_status lib net env payer q s) = Json200 body"
  from api_status_200D [OF this]
  show "res_user body = toBase58 lib (publicKey payer)"
    and "res_mint body = toBase58 lib (publicKey payer)"
    by blast+
qed (simp_all add: main_USER_def main_MINT_def bind_err_def)

theorem roots_default_to_identity_witness:
  "\<not> truthy (opt_user opts0) \<and> \<not> truthy (env_USER env0) \<and>
   \<not> truthy (opt_mint opts0) \<and> \<not> truthy (env_MINT env0) \<and>
   main_USER stub_web3 opts0 env0 payer0 = Inr [85] \<and>
   main_MINT stub_web3 opts0 env0 [85] = Inr [85] \<and>
   main_MINT stub_web3 (opts0\<lparr>opt_mint := Some (js ''M'')\<rparr>) env0 [85] = Inr [77] \<and>
   main_MINT stub_web3 opts0 env0 [90] = Inr [90]"
  using roots_default_to_identity [of opts0 env0 stub_web3 payer0 "[85]"]
        roots_default_to_identity [of opts0 env0 stub_web3 payer0 "[90]"]
  by (simp add: opts0_def env0_def payer0_def truthy_def main_MINT_def stub_simps js_simps
      utf8_unit_def)

text \<open>
  The claim as stated has an absent mint root default to the loaded identity in every
  run. With a user supplied and no mint, the mint is that user and not the payer.
\<close>

theorem mint_defaults_to_user_counterexample:
  "\<not> truthy (opt_mint (opts0\<lparr>opt_user := Some (js ''V'')\<rparr>)) \<and>
   \<not> truthy (env_MINT env0) \<and>
   publicKey payer0 = [85] \<and>
   main_USER stub_web3 (opts0\<lparr>opt_user := Some (js ''V'')\<rparr>) env0 payer0 = Inr [86] \<and>
   main_MINT stub_web3 (opts0\<lparr>opt_user := Some (js ''V'')\<rparr>) env0 [86] = Inr [86] \<and>
   bind_err (main_USER stub_web3 (opts0\<lparr>opt_user := Some (js ''V'')\<rparr>) env0 payer0)
     (main_MINT stub_web3 (opts0\<lparr>opt_user := Some (js ''V'')\<rparr>) env0)
     \<noteq> Inr (publicKey payer0)"
  by (simp add: opts0_def env0_def payer0_def main_USER_def main_MINT_def run_simps)

subsection \<open>C10: the market seed is the raw UTF-8 encoding of the string\<close>


























end
